theory Spec2Isabelle
  imports Main
begin

section \<open>Python values\<close>

text \<open>
  The values that reach \<^verbatim>\<open>ONNXModel.predict\<close> and
  \<^verbatim>\<open>DeepLearningReconstructor.predict\<close> are Python objects. The code
  inspects them in three ways only: \<^verbatim>\<open>len(v)\<close>,
  \<^verbatim>\<open>isinstance(v, list)\<close> / \<^verbatim>\<open>isinstance(v, dict)\<close> /
  \<^verbatim>\<open>isinstance(v, np.ndarray)\<close>, and \<^verbatim>\<open>v.dtype == np.float64\<close>.
  An array carries its dtype, its shape and its element data; the element data has the
  abstract type \<open>'d\<close>, since no code of the repository looks inside it. A tuple
  is a sequence that is no \<^verbatim>\<open>list\<close>. Any other object is \<open>PyObj\<close>, with the
  result of its \<^verbatim>\<open>__len__\<close> when it has one (a string has, a float has not).
\<close>

datatype dtype = Float64 | Float32 | OtherDtype

datatype 'd pyval =
    NDArray dtype "nat list" 'd
  | PyList "'d pyval list"
  | PyDict "(string \<times> 'd pyval) list"
  | PyTuple "'d pyval list"
  | PyObj "nat option"

text \<open>
  Every \<^verbatim>\<open>raise\<close> of the source is a constructor. The source raises
  \<^verbatim>\<open>ValueError\<close> at each of its own sites, told apart by the message; the
  constructors carry the names the specification gives to the sites:
  \<^item> \<open>ModelLoadError path\<close>: \<^verbatim>\<open>The model could not be loaded from "path"\<close>;
  \<^item> \<open>InvalidArgumentUsageError\<close>: \<^verbatim>\<open>The number of given (named xor ordered)
    arguments must be at least 1\<close> and \<^verbatim>\<open>Ordered arguments and named arguments
    can't be given in the same prediction\<close>;
  \<^item> \<open>ArityMismatchError\<close>: \<^verbatim>\<open>The number of given arguments (..) must be equal
    to the number of model inputs (..)\<close>;
  \<^item> \<open>BatchSizeMismatchError\<close>: \<^verbatim>\<open>All inputs must have the same length\<close>;
  \<^item> \<open>UnsupportedCameraError names\<close>: \<^verbatim>\<open>Some of the given camera names are not
    supported by this reconstructor: ..\<close>, with the joined names.

  The remaining constructors are the exceptions of Python itself and of the backend:
  \<open>TypeError\<close> for \<^verbatim>\<open>len()\<close> of an unsized object and for a call whose
  arguments do not bind to the parameters, \<open>IndexError\<close> for a sequence index out of
  range, \<open>KeyError\<close> for a telescope id missing from the subarray, \<open>BackendError\<close>
  for an exception of the backend that the code does not catch: whatever
  \<^verbatim>\<open>InferenceSession.run\<close> raises, and whatever the constructor of
  \<^verbatim>\<open>InferenceSession\<close> raises that is no \<^verbatim>\<open>RuntimeError\<close>.
\<close>

datatype error =
    ModelLoadError string
  | InvalidArgumentUsageError
  | ArityMismatchError
  | BatchSizeMismatchError
  | UnsupportedCameraError "string list"
  | TypeError
  | IndexError
  | KeyError nat
  | BackendError string

text \<open>\<^verbatim>\<open>len(v)\<close>: the leading dimension of an array (a 0-d array is unsized), the
  number of elements of a list, the number of keys of a dict.\<close>

fun py_len :: "'d pyval \<Rightarrow> error + nat" where
  "py_len (NDArray dt [] d) = Inl TypeError"
| "py_len (NDArray dt (n # shape) d) = Inr n"
| "py_len (PyList xs) = Inr (length xs)"
| "py_len (PyDict kvs) = Inr (length kvs)"
| "py_len (PyTuple xs) = Inr (length xs)"
| "py_len (PyObj None) = Inl TypeError"
| "py_len (PyObj (Some n)) = Inr n"

text \<open>\<^verbatim>\<open>isinstance(inp, np.ndarray) and inp.dtype == np.float64\<close>\<close>

fun is_float64_array :: "'d pyval \<Rightarrow> bool" where
  "is_float64_array (NDArray dt shape d) = (dt = Float64)"
| "is_float64_array v = False"

text \<open>
  \<^verbatim>\<open>inp.astype(np.float32)\<close> returns a new array of the same shape whose elements
  are the converted ones. The conversion of the element data is numpy's; it is the
  parameter \<open>f32\<close>. On an object that is no array the method does not exist; the code
  calls it behind the \<^verbatim>\<open>isinstance\<close> test only, and the model leaves such a value as
  it is.
\<close>

fun astype_float32 :: "('d \<Rightarrow> 'd) \<Rightarrow> 'd pyval \<Rightarrow> 'd pyval" where
  "astype_float32 f32 (NDArray dt shape d) = NDArray Float32 shape (f32 d)"
| "astype_float32 f32 v = v"

section \<open>Dictionaries\<close>

text \<open>
  A Python dict keeps its keys in insertion order, and the code iterates over dicts, so a
  dict is an association list. \<^verbatim>\<open>d[k] = v\<close> replaces the value of a key that is
  present, in place, and appends a new key at the end.
\<close>

fun dict_set :: "('k \<times> 'v) list \<Rightarrow> 'k \<Rightarrow> 'v \<Rightarrow> ('k \<times> 'v) list" where
  "dict_set [] k v = [(k, v)]"
| "dict_set ((k', v') # kvs) k v =
     (if k' = k then (k, v) # kvs else (k', v') # dict_set kvs k v)"

section \<open>ONNXModel\<close>

text \<open>
  \<^verbatim>\<open>onnxruntime.InferenceSession\<close> is the opaque backend. Of a session the code uses
  \<^verbatim>\<open>get_inputs()\<close>, of which it reads the length and each \<^verbatim>\<open>.name\<close>, and
  \<^verbatim>\<open>run(None, kwargs)\<close>, which returns the list of output arrays or raises.
\<close>

record 'd session =
  get_inputs :: "string list"
  run :: "(string \<times> 'd pyval) list \<Rightarrow> string + 'd pyval list"

record 'd ONNXModel =
  sess :: "'d session"

text \<open>
  \<^verbatim>\<open>onnxruntime.InferenceSession(path)\<close> returns a session, raises
  \<^verbatim>\<open>RuntimeError\<close>, or raises another exception of the backend.
\<close>

datatype 'd loaded = Loaded "'d session" | RaisedRuntimeError | RaisedOther string

text \<open>
  \<^verbatim>\<open>ONNXModel.__init__\<close>: \<open>load\<close> is \<^verbatim>\<open>onnxruntime.InferenceSession\<close>.
  The \<^verbatim>\<open>except\<close> clause catches \<^verbatim>\<open>RuntimeError\<close> only and raises the
  \<^verbatim>\<open>ValueError\<close> of the load; any other exception leaves the constructor as it is.
\<close>

definition ONNXModel_init ::
    "(string \<Rightarrow> 'd loaded) \<Rightarrow> string \<Rightarrow> error + 'd ONNXModel" where
  "ONNXModel_init load path =
     (case load path of
        Loaded s \<Rightarrow> Inr \<lparr>sess = s\<rparr>
      | RaisedRuntimeError \<Rightarrow> Inl (ModelLoadError path)
      | RaisedOther msg \<Rightarrow> Inl (BackendError msg))"

text \<open>The property \<^verbatim>\<open>inputs\<close>, by its slot names.\<close>

definition inputs :: "'d ONNXModel \<Rightarrow> string list" where
  "inputs m = get_inputs (sess m)"

text \<open>
  \<^verbatim>\<open>for i in range(n_inputs): kwargs[self.inputs[i].name] = args[i]\<close>, over the
  indices still to visit.
\<close>

fun assign_args ::
    "string list \<Rightarrow> 'v list \<Rightarrow> nat list \<Rightarrow> (string \<times> 'v) list \<Rightarrow> error + (string \<times> 'v) list" where
  "assign_args names args [] kwargs = Inr kwargs"
| "assign_args names args (i # is) kwargs =
     (if i < length names \<and> i < length args
      then assign_args names args is (dict_set kwargs (names ! i) (args ! i))
      else Inl IndexError)"

text \<open>\<^verbatim>\<open>[len(kwargs[name]) for name in kwargs]\<close>: the first unsized value raises.\<close>

fun lens :: "(string \<times> 'd pyval) list \<Rightarrow> error + nat list" where
  "lens [] = Inr []"
| "lens ((name, v) # kvs) =
     (case py_len v of
        Inl e \<Rightarrow> Inl e
      | Inr n \<Rightarrow> (case lens kvs of Inl e \<Rightarrow> Inl e | Inr ns \<Rightarrow> Inr (n # ns)))"

text \<open>
  The last loop of \<^verbatim>\<open>predict\<close> rebinds, key by key, each value that is a
  \<^verbatim>\<open>float64\<close> array to its \<^verbatim>\<open>float32\<close> copy. The keys of a dict are unique, so
  the loop visits every entry once and leaves the order of the keys as it is.
\<close>

definition narrow :: "('d \<Rightarrow> 'd) \<Rightarrow> 'd pyval \<Rightarrow> 'd pyval" where
  "narrow f32 inp = (if is_float64_array inp then astype_float32 f32 inp else inp)"

definition narrow_all ::
    "('d \<Rightarrow> 'd) \<Rightarrow> (string \<times> 'd pyval) list \<Rightarrow> (string \<times> 'd pyval) list" where
  "narrow_all f32 kwargs = map (\<lambda>(name, inp). (name, narrow f32 inp)) kwargs"

text \<open>
  \<^verbatim>\<open>ONNXModel.predict(self, *args, **kwargs)\<close>. Python binds the arguments of a call
  before the body runs. The first parameter of the method is named \<^verbatim>\<open>self\<close> and is
  bound to the model, so a keyword argument of that name is a second value for it and the
  call raises \<^verbatim>\<open>TypeError\<close>; every other keyword goes into \<^verbatim>\<open>kwargs\<close>, every
  positional argument into \<^verbatim>\<open>args\<close>. In the body,
  \<^verbatim>\<open>len(set(n_predictions))\<close> is the number of distinct lengths,
  \<open>length (remdups n_predictions)\<close>.
\<close>

definition ONNXModel_predict ::
    "('d \<Rightarrow> 'd) \<Rightarrow> 'd ONNXModel \<Rightarrow> 'd pyval list \<Rightarrow> (string \<times> 'd pyval) list
      \<Rightarrow> error + 'd pyval list" where
  "ONNXModel_predict f32 self args kwargs =
     (if ''self'' \<in> set (map fst kwargs) then Inl TypeError
      else
      let n_inputs = length (inputs self) in
      if length kwargs = 0 \<and> length args = 0 then Inl InvalidArgumentUsageError
      else if length kwargs \<noteq> 0 \<and> length args \<noteq> 0 then Inl InvalidArgumentUsageError
      else if length kwargs \<noteq> n_inputs \<and> length args \<noteq> n_inputs then Inl ArityMismatchError
      else
        (case (if length args \<noteq> 0
               then assign_args (inputs self) args [0..<n_inputs] kwargs
               else Inr kwargs) of
           Inl e \<Rightarrow> Inl e
         | Inr kwargs' \<Rightarrow>
             (case lens kwargs' of
                Inl e \<Rightarrow> Inl e
              | Inr n_predictions \<Rightarrow>
                  if length (remdups n_predictions) \<noteq> 1 then Inl BatchSizeMismatchError
                  else
                    (case run (sess self) (narrow_all f32 kwargs') of
                       Inl msg \<Rightarrow> Inl (BackendError msg)
                     | Inr outs \<Rightarrow> Inr outs))))"

section \<open>DeepLearningReconstructor\<close>

text \<open>
  The reconstructor holds the registry \<^verbatim>\<open>self.models\<close>, a dict from camera name to
  loaded model. \<^verbatim>\<open>supported_cameras\<close> is an abstract property that each concrete
  reconstructor declares as a list of camera names; it is a field here.
\<close>

record 'd DeepLearningReconstructor =
  supported_cameras :: "string list"
  models :: "(string \<times> 'd ONNXModel) list"

text \<open>
  \<^verbatim>\<open>{cam_name: ONNXModel(path) for (cam_name, path) in models_paths.items()}\<close>: the
  models are loaded in the order of the configuration, and the first that fails to load
  raises. \<^verbatim>\<open>models_paths\<close> is a dict, so its keys are unique.
\<close>

fun load_models ::
    "(string \<Rightarrow> 'd loaded) \<Rightarrow> (string \<times> string) list
      \<Rightarrow> error + (string \<times> 'd ONNXModel) list" where
  "load_models load [] = Inr []"
| "load_models load ((cam_name, path) # rest) =
     (case ONNXModel_init load path of
        Inl e \<Rightarrow> Inl e
      | Inr m \<Rightarrow>
          (case load_models load rest of
             Inl e \<Rightarrow> Inl e
           | Inr ms \<Rightarrow> Inr ((cam_name, m) # ms)))"

text \<open>
  \<^verbatim>\<open>DeepLearningReconstructor.__init__\<close>, up to the call of the base class's
  initialiser, which belongs to \<^verbatim>\<open>ctapipe.reco.reco_algorithms\<close>.
\<close>

definition DeepLearningReconstructor_init ::
    "(string \<Rightarrow> 'd loaded) \<Rightarrow> string list \<Rightarrow> (string \<times> string) list
      \<Rightarrow> error + 'd DeepLearningReconstructor" where
  "DeepLearningReconstructor_init load supported models_paths =
     (case load_models load models_paths of
        Inl e \<Rightarrow> Inl e
      | Inr ms \<Rightarrow>
          (let not_supported_cams =
                 filter (\<lambda>cam_name. cam_name \<notin> set supported) (map fst ms)
           in if length not_supported_cams > 0
              then Inl (UnsupportedCameraError not_supported_cams)
              else Inr \<lparr>supported_cameras = supported, models = ms\<rparr>))"

text \<open>
  The body of the innermost loop of \<^verbatim>\<open>predict\<close>:
  \<^verbatim>\<open>isinstance(inp, list)\<close> unpacks a list into positional arguments,
  \<^verbatim>\<open>isinstance(inp, dict)\<close> unpacks a dict into named arguments, and anything else,
  a tuple as well as an array, is the one positional argument.
\<close>

definition predict_input ::
    "('d \<Rightarrow> 'd) \<Rightarrow> 'd ONNXModel \<Rightarrow> 'd pyval \<Rightarrow> error + 'd pyval list" where
  "predict_input f32 model inp =
     (case inp of
        PyList xs \<Rightarrow> ONNXModel_predict f32 model xs []
      | PyDict kws \<Rightarrow> ONNXModel_predict f32 model [] kws
      | _ \<Rightarrow> ONNXModel_predict f32 model [inp] [])"

text \<open>
  \<^verbatim>\<open>[tels_dict[tel_id] for tel_id in tels_dict
     if subarray.tel[tel_id].camera.geometry.camera_name == cam_name]\<close>.
  The subarray is the caller's; it gives the camera name of a telescope id, and a
  telescope id it does not know raises \<^verbatim>\<open>KeyError\<close>.
\<close>

fun obs_inputs ::
    "(nat \<Rightarrow> string option) \<Rightarrow> string \<Rightarrow> (nat \<times> 'd pyval) list \<Rightarrow> error + 'd pyval list" where
  "obs_inputs subarray cam_name [] = Inr []"
| "obs_inputs subarray cam_name ((tel_id, inp) # tels) =
     (case subarray tel_id of
        None \<Rightarrow> Inl (KeyError tel_id)
      | Some camera_name \<Rightarrow>
          (case obs_inputs subarray cam_name tels of
             Inl e \<Rightarrow> Inl e
           | Inr inps \<Rightarrow> Inr (if camera_name = cam_name then inp # inps else inps)))"

text \<open>
  \<^verbatim>\<open>for inp in obs_inputs: predictions[cam_name].append(model.predict(..))\<close>: the
  list the appends build, or the first exception.
\<close>

fun predict_each ::
    "('d \<Rightarrow> 'd) \<Rightarrow> 'd ONNXModel \<Rightarrow> 'd pyval list \<Rightarrow> error + 'd pyval list list" where
  "predict_each f32 model [] = Inr []"
| "predict_each f32 model (inp # inps) =
     (case predict_input f32 model inp of
        Inl e \<Rightarrow> Inl e
      | Inr out \<Rightarrow>
          (case predict_each f32 model inps of
             Inl e \<Rightarrow> Inl e
           | Inr outs \<Rightarrow> Inr (out # outs)))"

text \<open>
  \<^verbatim>\<open>for cam_name in self.supported_cameras\<close>, over the cameras still to visit, with
  the dict \<^verbatim>\<open>predictions\<close> built so far. An exception leaves the loop, and the dict
  is lost with the frame.
\<close>

fun predict_loop ::
    "('d \<Rightarrow> 'd) \<Rightarrow> (string \<times> 'd ONNXModel) list \<Rightarrow> (nat \<Rightarrow> string option)
      \<Rightarrow> (nat \<times> 'd pyval) list \<Rightarrow> string list \<Rightarrow> (string \<times> 'd pyval list list) list
      \<Rightarrow> error + (string \<times> 'd pyval list list) list" where
  "predict_loop f32 ms subarray tels_dict [] predictions = Inr predictions"
| "predict_loop f32 ms subarray tels_dict (cam_name # cams) predictions =
     (case map_of ms cam_name of
        None \<Rightarrow> predict_loop f32 ms subarray tels_dict cams predictions
      | Some model \<Rightarrow>
          (case obs_inputs subarray cam_name tels_dict of
             Inl e \<Rightarrow> Inl e
           | Inr inps \<Rightarrow>
               (case predict_each f32 model inps of
                  Inl e \<Rightarrow> Inl e
                | Inr outs \<Rightarrow>
                    predict_loop f32 ms subarray tels_dict cams
                      (dict_set predictions cam_name outs))))"

text \<open>
  \<^verbatim>\<open>DeepLearningReconstructor.predict\<close> up to its last line: the dict
  \<^verbatim>\<open>predictions\<close> that is handed to \<^verbatim>\<open>_reconstruct\<close>.
\<close>

definition dispatch ::
    "('d \<Rightarrow> 'd) \<Rightarrow> 'd DeepLearningReconstructor \<Rightarrow> (nat \<Rightarrow> string option)
      \<Rightarrow> (nat \<times> 'd pyval) list \<Rightarrow> error + (string \<times> 'd pyval list list) list" where
  "dispatch f32 self subarray tels_dict =
     predict_loop f32 (models self) subarray tels_dict (supported_cameras self) []"

text \<open>\<^verbatim>\<open>_reconstruct\<close> is abstract: the concrete reconstructor's is a parameter.\<close>

definition DeepLearningReconstructor_predict ::
    "((string \<times> 'd pyval list list) list \<Rightarrow> error + 'r) \<Rightarrow> ('d \<Rightarrow> 'd)
      \<Rightarrow> 'd DeepLearningReconstructor \<Rightarrow> (nat \<Rightarrow> string option)
      \<Rightarrow> (nat \<times> 'd pyval) list \<Rightarrow> error + 'r" where
  "DeepLearningReconstructor_predict reconstruct f32 self subarray tels_dict =
     (case dispatch f32 self subarray tels_dict of
        Inl e \<Rightarrow> Inl e
      | Inr predictions \<Rightarrow> reconstruct predictions)"

section \<open>Objects and references\<close>

text \<open>
  Python passes references. To say what a call leaves unchanged, the second model of
  \<^verbatim>\<open>ONNXModel.predict\<close> runs on a store: \<open>heap\<close> maps an address to the object
  there, the addresses below \<open>used\<close> are allocated, and \<open>reconstructor\<close> is the
  reconstructor object with its registry of loaded models. The arguments are addresses.
  \<^verbatim>\<open>*args\<close> and \<^verbatim>\<open>**kwargs\<close> are a tuple and a dict made for the call, so
  the callee's \<^verbatim>\<open>kwargs[name] = ..\<close> rebinds a name of its own dict and never
  writes to a container of the caller. The backend reads the objects it is fed and
  returns new ones: it is the same function of the fed values as in the first model.
\<close>

record 'd state =
  heap :: "nat \<Rightarrow> 'd pyval"
  used :: nat
  reconstructor :: "'d DeepLearningReconstructor"

text \<open>A new object is placed at the first free address.\<close>

definition alloc :: "'d pyval \<Rightarrow> 'd state \<Rightarrow> nat \<times> 'd state" where
  "alloc v s = (used s, s\<lparr>heap := (heap s)(used s := v), used := Suc (used s)\<rparr>)"

definition deref :: "'d state \<Rightarrow> (string \<times> nat) list \<Rightarrow> (string \<times> 'd pyval) list" where
  "deref s kwargs = map (\<lambda>(name, a). (name, heap s a)) kwargs"

text \<open>
  \<^verbatim>\<open>for name in kwargs: inp = kwargs[name]; if ..: kwargs[name] = inp.astype(np.float32)\<close>:
  \<^verbatim>\<open>astype\<close> allocates the converted array, and the name is bound to the new address.
\<close>

fun narrow_refs ::
    "('d \<Rightarrow> 'd) \<Rightarrow> (string \<times> nat) list \<Rightarrow> 'd state \<Rightarrow> (string \<times> nat) list \<times> 'd state" where
  "narrow_refs f32 [] s = ([], s)"
| "narrow_refs f32 ((name, a) # kwargs) s =
     (if is_float64_array (heap s a)
      then (case alloc (astype_float32 f32 (heap s a)) s of
              (a', s') \<Rightarrow>
                (case narrow_refs f32 kwargs s' of
                   (kwargs', s'') \<Rightarrow> ((name, a') # kwargs', s'')))
      else (case narrow_refs f32 kwargs s of
              (kwargs', s') \<Rightarrow> ((name, a) # kwargs', s')))"

text \<open>\<^verbatim>\<open>ONNXModel.predict\<close> on references: the result and the store after the call.\<close>

definition ONNXModel_predict_refs ::
    "('d \<Rightarrow> 'd) \<Rightarrow> 'd ONNXModel \<Rightarrow> nat list \<Rightarrow> (string \<times> nat) list \<Rightarrow> 'd state
      \<Rightarrow> (error + 'd pyval list) \<times> 'd state" where
  "ONNXModel_predict_refs f32 self args kwargs s =
     (if ''self'' \<in> set (map fst kwargs) then (Inl TypeError, s)
      else
      let n_inputs = length (inputs self) in
      if length kwargs = 0 \<and> length args = 0 then (Inl InvalidArgumentUsageError, s)
      else if length kwargs \<noteq> 0 \<and> length args \<noteq> 0 then (Inl InvalidArgumentUsageError, s)
      else if length kwargs \<noteq> n_inputs \<and> length args \<noteq> n_inputs
      then (Inl ArityMismatchError, s)
      else
        (case (if length args \<noteq> 0
               then assign_args (inputs self) args [0..<n_inputs] kwargs
               else Inr kwargs) of
           Inl e \<Rightarrow> (Inl e, s)
         | Inr kwargs' \<Rightarrow>
             (case lens (deref s kwargs') of
                Inl e \<Rightarrow> (Inl e, s)
              | Inr n_predictions \<Rightarrow>
                  if length (remdups n_predictions) \<noteq> 1
                  then (Inl BatchSizeMismatchError, s)
                  else
                    (case narrow_refs f32 kwargs' s of
                       (kwargs'', s') \<Rightarrow>
                         ((case run (sess self) (deref s' kwargs'') of
                             Inl msg \<Rightarrow> Inl (BackendError msg)
                           | Inr outs \<Rightarrow> Inr outs), s')))))"

section \<open>Stub backends for the concrete instances\<close>

text \<open>
  The instances below run the definitions on a backend that returns its inputs as its
  outputs, in the order of the feed. Element data is a number there, and \<open>round32\<close>
  stands for the lossy conversion to single precision.
\<close>

definition round32 :: "nat \<Rightarrow> nat" where
  "round32 d = 2 * (d div 2)"

definition echo_model :: "string list \<Rightarrow> nat ONNXModel" where
  "echo_model names =
     \<lparr>sess = \<lparr>get_inputs = names, run = (\<lambda>kwargs. Inr (map snd kwargs))\<rparr>\<rparr>"

text \<open>
  An array of three cameras of which \<open>A\<close> and \<open>C\<close> have a model, and an event of
  three telescopes: two of type \<open>A\<close>, one of type \<open>B\<close> whose input no model could
  take.
\<close>

definition example_reconstructor :: "nat DeepLearningReconstructor" where
  "example_reconstructor =
     \<lparr>supported_cameras = [''A'', ''B'', ''C''],
      models = [(''A'', echo_model [''image'']), (''C'', echo_model [''image'', ''mask''])]\<rparr>"

definition example_subarray :: "nat \<Rightarrow> string option" where
  "example_subarray tel_id =
     (if tel_id = 1 \<or> tel_id = 3 then Some ''A'' else if tel_id = 2 then Some ''B'' else None)"

definition example_event :: "(nat \<times> nat pyval) list" where
  "example_event =
     [(1, PyList [NDArray Float32 [1] 10]),
      (2, PyObj None),
      (3, PyDict [(''image'', NDArray Float64 [1] 21)])]"

section \<open>Dictionary updates and the binding of positional arguments\<close>

lemma dict_set_append_new:
  "k \<notin> fst ` set kvs \<Longrightarrow> dict_set kvs k v = kvs @ [(k, v)]"
  by (induction kvs) auto

lemma map_of_dict_set: "map_of (dict_set kvs k v) = (map_of kvs)(k \<mapsto> v)"
  by (induction kvs) (auto simp: fun_eq_iff)

lemma keys_dict_set: "fst ` set (dict_set kvs k v) = insert k (fst ` set kvs)"
  by (induction kvs k v rule: dict_set.induct) (simp_all add: insert_commute)

lemma distinct_dict_set:
  "distinct (map fst kvs) \<Longrightarrow> distinct (map fst (dict_set kvs k v))"
  by (induction kvs) (auto simp: keys_dict_set)

lemma dict_set_idem: "dict_set (dict_set kvs k v) k v = dict_set kvs k v"
  by (induction kvs) auto

lemma dict_set_values: "snd ` set (dict_set kvs k v) \<subseteq> insert v (snd ` set kvs)"
proof (induction kvs k v rule: dict_set.induct)
  case (1 k v)
  then show ?case by simp
next
  case (2 k' v' kvs k v)
  then show ?case by (cases "k' = k") auto
qed

lemma dict_set_map:
  "dict_set (map (\<lambda>(k, a). (k, f a)) kvs) k (f v) = map (\<lambda>(k, a). (k, f a)) (dict_set kvs k v)"
  by (induction kvs k v rule: dict_set.induct) auto

text \<open>
  With as many arguments as slots and slot names that differ, the loop over
  \<^verbatim>\<open>range(n_inputs)\<close> builds the dict that pairs each slot name with the argument
  at its position. It never indexes out of range when every index it visits is in range.
\<close>

lemma assign_args_prefix:
  assumes "distinct names" "length names = length args"
  shows "k \<le> length names \<Longrightarrow> j \<le> k \<Longrightarrow>
    assign_args names args [j..<k] (zip (take j names) (take j args))
      = Inr (zip (take k names) (take k args))"
proof (induction "k - j" arbitrary: j)
  case 0
  then show ?case by simp
next
  case (Suc d)
  then have jk: "j < k" by simp
  have new: "names ! j \<notin> fst ` set (zip (take j names) (take j args))"
  proof
    assume "names ! j \<in> fst ` set (zip (take j names) (take j args))"
    then have "names ! j \<in> set (take j names)"
      by (auto dest: set_zip_leftD)
    then obtain i where "i < j" "names ! i = names ! j"
      using jk Suc.prems by (auto simp: in_set_conv_nth)
    with assms(1) jk Suc.prems show False
      by (simp add: nth_eq_iff_index_eq)
  qed
  have step: "dict_set (zip (take j names) (take j args)) (names ! j) (args ! j)
      = zip (take (Suc j) names) (take (Suc j) args)"
    using jk Suc.prems assms(2)
    by (simp add: dict_set_append_new [OF new] take_Suc_conv_app_nth)
  have "d = k - Suc j" using Suc.hyps by simp
  from Suc.hyps(1) [OF this Suc.prems(1)] jk Suc.prems assms(2) step
  show ?case
    by (simp add: upt_conv_Cons)
qed

lemma assign_args_zip:
  assumes "distinct names" "length names = length args"
  shows "assign_args names args [0..<length names] [] = Inr (zip names args)"
  using assign_args_prefix [OF assms, of "length names" 0] assms(2) by simp

lemma assign_args_total:
  "\<forall>i \<in> set is. i < length names \<and> i < length args \<Longrightarrow>
   \<exists>kwargs'. assign_args names args is kwargs = Inr kwargs'"
  by (induction "is" arbitrary: kwargs) auto

lemma assign_args_map:
  "assign_args names (map f args) is (map (\<lambda>(k, a). (k, f a)) kwargs) =
     (case assign_args names args is kwargs of
        Inl e \<Rightarrow> Inl e
      | Inr kwargs' \<Rightarrow> Inr (map (\<lambda>(k, a). (k, f a)) kwargs'))"
proof (induction "is" arbitrary: kwargs)
  case Nil
  then show ?case by simp
next
  case (Cons i "is")
  show ?case
  proof (cases "i < length names \<and> i < length args")
    case True
    then have "dict_set (map (\<lambda>(k, a). (k, f a)) kwargs) (names ! i) (map f args ! i) =
        map (\<lambda>(k, a). (k, f a)) (dict_set kwargs (names ! i) (args ! i))"
      by (simp add: dict_set_map)
    with True Cons.IH show ?thesis by simp
  next
    case False
    then show ?thesis by auto
  qed
qed

lemma assign_args_refs:
  "assign_args names args is kwargs = Inr kwargs' \<Longrightarrow>
   snd ` set kwargs' \<subseteq> set args \<union> snd ` set kwargs"
proof (induction "is" arbitrary: kwargs)
  case Nil
  then show ?case by auto
next
  case (Cons i "is")
  from Cons.prems have i: "i < length names" "i < length args"
    and rest: "assign_args names args is (dict_set kwargs (names ! i) (args ! i)) = Inr kwargs'"
    by (simp_all split: if_splits)
  have trans: "A \<subseteq> B \<union> C \<Longrightarrow> C \<subseteq> insert x D \<Longrightarrow> x \<in> B \<Longrightarrow> A \<subseteq> B \<union> D"
    for A B C D :: "'a set" and x
    by blast
  have "snd ` set (dict_set kwargs (names ! i) (args ! i))
      \<subseteq> insert (args ! i) (snd ` set kwargs)"
    by (rule dict_set_values)
  moreover from i have "args ! i \<in> set args" by simp
  ultimately show ?case
    by (rule trans [OF Cons.IH [OF rest]])
qed

section \<open>The lengths of the inputs\<close>

lemma lens_Inr_D:
  "lens kwargs = Inr ns \<Longrightarrow> map (\<lambda>kv. py_len (snd kv)) kwargs = map Inr ns"
  by (induction kwargs arbitrary: ns) (auto split: sum.splits)

lemma lens_Inr_I:
  "map (\<lambda>kv. py_len (snd kv)) kwargs = map Inr ns \<Longrightarrow> lens kwargs = Inr ns"
  by (induction kwargs arbitrary: ns) (auto split: sum.splits)

lemma lens_error: "lens kwargs = Inl e \<Longrightarrow> e = TypeError"
proof (induction kwargs)
  case Nil
  then show ?case by simp
next
  case (Cons kv kwargs)
  obtain name v where kv: "kv = (name, v)" by (cases kv)
  show ?case
  proof (cases "py_len v")
    case (Inl e')
    then have "e' = TypeError"
      by (cases v rule: py_len.cases) auto
    with Cons.prems kv Inl show ?thesis by simp
  next
    case (Inr n)
    with Cons kv show ?thesis
      by (auto split: sum.splits)
  qed
qed

lemma sized_lens:
  "\<forall>v \<in> snd ` set kwargs. \<exists>n. py_len v = Inr n \<Longrightarrow> \<exists>ns. lens kwargs = Inr ns"
proof (induction kwargs)
  case Nil
  then show ?case by simp
next
  case (Cons kv kwargs)
  then obtain ns where "lens kwargs = Inr ns" by auto
  moreover obtain n where "py_len (snd kv) = Inr n"
    using Cons.prems by auto
  ultimately show ?case
    by (cases kv) simp
qed

lemma unsized_lens:
  "\<exists>v \<in> snd ` set kwargs. py_len v = Inl e \<Longrightarrow> lens kwargs = Inl TypeError"
proof (induction kwargs)
  case Nil
  then show ?case by simp
next
  case (Cons kv kwargs)
  obtain name v where kv: "kv = (name, v)" by (cases kv)
  show ?case
  proof (cases "py_len v")
    case (Inl e')
    then have "e' = TypeError"
      by (cases v rule: py_len.cases) auto
    with Inl kv show ?thesis by simp
  next
    case (Inr n)
    with Cons.prems kv have "\<exists>v \<in> snd ` set kwargs. py_len v = Inl e" by auto
    from Cons.IH [OF this] Inr kv show ?thesis by simp
  qed
qed

lemma lens_values:
  assumes "lens kwargs = Inr ns"
  shows "py_len ` snd ` set kwargs = Inr ` set ns"
proof -
  have "set (map (\<lambda>kv. py_len (snd kv)) kwargs) = set (map Inr ns)"
    using lens_Inr_D [OF assms] by simp
  then show ?thesis
    by (simp add: image_image)
qed

lemma remdups_one_iff:
  "length (remdups ns) = 1 \<longleftrightarrow> ns \<noteq> [] \<and> (\<forall>x \<in> set ns. \<forall>y \<in> set ns. x = y)"
proof -
  have "length (remdups ns) = card (set ns)"
    by (simp add: length_remdups_card_conv)
  moreover have "card (set ns) = 1 \<longleftrightarrow> ns \<noteq> [] \<and> (\<forall>x \<in> set ns. \<forall>y \<in> set ns. x = y)"
  proof
    assume "card (set ns) = 1"
    then obtain x where "set ns = {x}"
      by (auto simp: card_1_singleton_iff)
    then show "ns \<noteq> [] \<and> (\<forall>x \<in> set ns. \<forall>y \<in> set ns. x = y)"
      by auto
  next
    assume a: "ns \<noteq> [] \<and> (\<forall>x \<in> set ns. \<forall>y \<in> set ns. x = y)"
    then obtain x where "x \<in> set ns"
      by (cases ns) auto
    with a have "set ns = {x}" by auto
    then show "card (set ns) = 1" by simp
  qed
  ultimately show ?thesis by simp
qed

lemma batch_check:
  assumes "kwargs \<noteq> []" and "lens kwargs = Inr ns"
  shows "length (remdups ns) \<noteq> 1 \<longleftrightarrow>
         (\<exists>v \<in> snd ` set kwargs. \<exists>w \<in> snd ` set kwargs. py_len v \<noteq> py_len w)"
proof -
  have img: "py_len ` snd ` set kwargs = Inr ` set ns"
    by (rule lens_values [OF assms(2)])
  have "length ns = length kwargs"
    using lens_Inr_D [OF assms(2)] by (metis length_map)
  with assms(1) have ne: "ns \<noteq> []" by auto
  have "(\<exists>v \<in> snd ` set kwargs. \<exists>w \<in> snd ` set kwargs. py_len v \<noteq> py_len w)
        \<longleftrightarrow> (\<exists>a \<in> py_len ` snd ` set kwargs. \<exists>b \<in> py_len ` snd ` set kwargs. a \<noteq> b)"
    by blast
  also have "\<dots> \<longleftrightarrow> (\<exists>x \<in> set ns. \<exists>y \<in> set ns. x \<noteq> y)"
    unfolding img by blast
  finally show ?thesis
    using ne remdups_one_iff [of ns] by auto
qed

lemma narrow_cases:
  "narrow f32 v =
     (case v of NDArray Float64 shape d \<Rightarrow> NDArray Float32 shape (f32 d) | _ \<Rightarrow> v)"
  by (cases v) (auto simp: narrow_def split: dtype.splits)

section \<open>ONNXModel.predict\<close>

text \<open>The body of \<^verbatim>\<open>predict\<close> behind its three checks.\<close>

lemma predict_passed:
  assumes "''self'' \<notin> set (map fst kwargs)" and "(args = []) \<noteq> (kwargs = [])"
    and "length kwargs = length (inputs self) \<or> length args = length (inputs self)"
  shows "ONNXModel_predict f32 self args kwargs =
     (case (if args = [] then Inr kwargs
            else assign_args (inputs self) args [0..<length (inputs self)] kwargs) of
        Inl e \<Rightarrow> Inl e
      | Inr kwargs' \<Rightarrow>
          (case lens kwargs' of
             Inl e \<Rightarrow> Inl e
           | Inr n_predictions \<Rightarrow>
               if length (remdups n_predictions) \<noteq> 1 then Inl BatchSizeMismatchError
               else
                 (case run (sess self) (narrow_all f32 kwargs') of
                    Inl msg \<Rightarrow> Inl (BackendError msg)
                  | Inr outs \<Rightarrow> Inr outs)))"
  using assms by (auto simp: ONNXModel_predict_def Let_def)

lemma predict_named:
  "''self'' \<notin> set (map fst kwargs) \<Longrightarrow> kwargs \<noteq> [] \<Longrightarrow>
   length kwargs = length (inputs self) \<or> inputs self = [] \<Longrightarrow>
   ONNXModel_predict f32 self [] kwargs =
     (case lens kwargs of
        Inl e \<Rightarrow> Inl e
      | Inr ns \<Rightarrow>
          if length (remdups ns) \<noteq> 1 then Inl BatchSizeMismatchError
          else (case run (sess self) (narrow_all f32 kwargs) of
                  Inl msg \<Rightarrow> Inl (BackendError msg)
                | Inr outs \<Rightarrow> Inr outs))"
  by (auto simp: ONNXModel_predict_def Let_def)

lemma predict_positional:
  assumes "args \<noteq> []" "length args = length (inputs self)" "distinct (inputs self)"
  shows "ONNXModel_predict f32 self args [] =
     (case lens (zip (inputs self) args) of
        Inl e \<Rightarrow> Inl e
      | Inr ns \<Rightarrow>
          if length (remdups ns) \<noteq> 1 then Inl BatchSizeMismatchError
          else (case run (sess self) (narrow_all f32 (zip (inputs self) args)) of
                  Inl msg \<Rightarrow> Inl (BackendError msg)
                | Inr outs \<Rightarrow> Inr outs))"
  using assms assign_args_zip [of "inputs self" args]
  by (auto simp: ONNXModel_predict_def Let_def)

lemma predict_convention_equiv:
  assumes "distinct (inputs self)" "length args = length (inputs self)"
    and "''self'' \<notin> set (inputs self)"
  shows "ONNXModel_predict f32 self args [] =
         ONNXModel_predict f32 self [] (zip (inputs self) args)"
proof (cases "args = []")
  case True
  then show ?thesis by (simp add: ONNXModel_predict_def)
next
  case False
  with assms have ne: "zip (inputs self) args \<noteq> []"
    by (cases args; cases "inputs self") auto
  from assms have keys: "map fst (zip (inputs self) args) = inputs self"
    by simp
  with assms have "''self'' \<notin> set (map fst (zip (inputs self) args))"
    by simp
  from predict_named [OF this ne, of self f32] assms False show ?thesis
    by (simp add: predict_positional)
qed

text \<open>
  For a model that declares at least one input, a call that binds, with arguments of one
  kind whose number is not the number of inputs, is refused by the third check.
\<close>

lemma predict_arity_mismatch:
  assumes "''self'' \<notin> set (map fst kwargs)"
    and "inputs self \<noteq> []" and "(args = []) \<noteq> (kwargs = [])"
    and "length args + length kwargs \<noteq> length (inputs self)"
  shows "ONNXModel_predict f32 self args kwargs = Inl ArityMismatchError"
  using assms by (auto simp: ONNXModel_predict_def Let_def)

text \<open>The index loop of \<^verbatim>\<open>predict\<close> is never out of range.\<close>

lemma predict_no_index_error:
  "ONNXModel_predict f32 self args kwargs \<noteq> Inl IndexError"
proof (cases "''self'' \<notin> set (map fst kwargs) \<and> (args = []) \<noteq> (kwargs = []) \<and>
    (length kwargs = length (inputs self) \<or> length args = length (inputs self))")
  case False
  then show ?thesis
    by (auto simp: ONNXModel_predict_def Let_def)
next
  case True
  then have passed: "''self'' \<notin> set (map fst kwargs)" "(args = []) \<noteq> (kwargs = [])"
    "length kwargs = length (inputs self) \<or> length args = length (inputs self)"
    by auto
  have "\<forall>i \<in> set [0..<length (inputs self)]. i < length (inputs self) \<and> i < length args"
    if "args \<noteq> []"
    using that passed by auto
  from assign_args_total [OF this] obtain kwargs' where
    "(if args = [] then Inr kwargs
      else assign_args (inputs self) args [0..<length (inputs self)] kwargs) = Inr kwargs'"
    by (cases "args = []") auto
  then show ?thesis
    unfolding predict_passed [OF passed]
    by (auto split: sum.splits dest: lens_error)
qed

lemmas instance_defs =
  ONNXModel_predict_def inputs_def echo_model_def narrow_all_def narrow_def round32_def

subsection \<open>Argument usage\<close>

text \<open>
  Claim C3, amended. A call of \<^verbatim>\<open>predict\<close> with no argument at all, or with at least
  one positional and at least one named argument, fails whatever the model and the
  values are: with \<open>InvalidArgumentUsageError\<close> when no named argument is called
  \<^verbatim>\<open>self\<close>, and with the \<^verbatim>\<open>TypeError\<close> of the argument binding, before any
  check of the body, when one is. The claim as stated promises
  \<open>InvalidArgumentUsageError\<close> for every such call.
\<close>

theorem predict_invalid_usage:
  assumes "(args = [] \<and> kwargs = []) \<or> (args \<noteq> [] \<and> kwargs \<noteq> [])"
  shows "ONNXModel_predict f32 self args kwargs =
     (if ''self'' \<in> set (map fst kwargs) then Inl TypeError
      else Inl InvalidArgumentUsageError)"
  using assms by (auto simp: ONNXModel_predict_def)

text \<open>Both cases on a model with one input: no argument, and one argument of each kind.\<close>

theorem predict_invalid_usage_witness:
  "ONNXModel_predict round32 (echo_model [''image'']) [] [] = Inl InvalidArgumentUsageError
   \<and> ONNXModel_predict round32 (echo_model [''image''])
         [NDArray Float32 [1, 8] 6] [(''image'', NDArray Float32 [1, 8] 6)]
       = Inl InvalidArgumentUsageError
   \<and> ONNXModel_predict round32 (echo_model [''image''])
         [NDArray Float32 [1, 8] 6] [(''image'', NDArray Float32 [1, 8] 6), (''self'', PyObj None)]
       = Inl TypeError"
proof -
  have none: "([] :: nat pyval list) = [] \<and> ([] :: (string \<times> nat pyval) list) = []
      \<or> ([] :: nat pyval list) \<noteq> [] \<and> ([] :: (string \<times> nat pyval) list) \<noteq> []"
    by simp
  have both: "[NDArray Float32 [1, 8] (6::nat)] = []
        \<and> [(''image'', NDArray Float32 [1, 8] (6::nat))] = []
      \<or> [NDArray Float32 [1, 8] (6::nat)] \<noteq> []
        \<and> [(''image'', NDArray Float32 [1, 8] (6::nat))] \<noteq> []"
    by simp
  have self: "[NDArray Float32 [1, 8] (6::nat)] = []
        \<and> [(''image'', NDArray Float32 [1, 8] (6::nat)), (''self'', PyObj None)] = []
      \<or> [NDArray Float32 [1, 8] (6::nat)] \<noteq> []
        \<and> [(''image'', NDArray Float32 [1, 8] (6::nat)), (''self'', PyObj None)] \<noteq> []"
    by simp
  from predict_invalid_usage [OF none] predict_invalid_usage [OF both]
    predict_invalid_usage [OF self]
  show ?thesis by simp
qed

text \<open>
  Against claim C3 as stated: one positional argument and one named argument called
  \<^verbatim>\<open>self\<close>. The call has arguments of both kinds and fails with \<open>TypeError\<close>.
\<close>

theorem predict_self_keyword:
  "ONNXModel_predict round32 (echo_model [''image''])
       [NDArray Float32 [1, 8] 6] [(''self'', NDArray Float32 [1, 8] 6)]
     = Inl TypeError"
  by (simp add: ONNXModel_predict_def)

subsection \<open>Arity\<close>

text \<open>
  Claim C4. The claim is that every call with a nonzero number of arguments of one kind,
  different from the number \<open>N\<close> of declared inputs, fails with
  \<open>ArityMismatchError\<close>, also for \<open>N = 0\<close>. The check is
  \<^verbatim>\<open>len(kwargs) != n_inputs and len(args) != n_inputs\<close>; with \<open>N = 0\<close> the kind
  that was not supplied has length \<open>0 = N\<close>, and the check lets the call through. On a
  model without inputs a positional call, with any arguments, binds nothing and fails
  with \<open>BatchSizeMismatchError\<close>, and a call with one named array is handed to the
  backend (or fails to bind when the name is \<^verbatim>\<open>self\<close>). Neither fails with
  \<open>ArityMismatchError\<close>.
\<close>

theorem predict_no_inputs:
  "ONNXModel_predict f32 \<lparr>sess = \<lparr>get_inputs = [], run = r\<rparr>\<rparr> (v # vs) []
     = Inl BatchSizeMismatchError
   \<and> ONNXModel_predict f32 \<lparr>sess = \<lparr>get_inputs = [], run = r\<rparr>\<rparr> []
       [(name, NDArray Float32 [n] d)]
     = (if name = ''self'' then Inl TypeError
        else (case r [(name, NDArray Float32 [n] d)] of
                Inl msg \<Rightarrow> Inl (BackendError msg)
              | Inr outs \<Rightarrow> Inr outs))"
  by (simp add: ONNXModel_predict_def inputs_def narrow_all_def narrow_def)

subsection \<open>Batch size\<close>

text \<open>
  Claim C5, amended. Take a call that binds and passes the usage and arity checks as the
  code makes them, on a model with at least one declared input, whose slot names differ.
  If one of the supplied inputs has no length, as a 0-d array or a number, the call fails
  with the \<^verbatim>\<open>TypeError\<close> of \<^verbatim>\<open>len\<close>. If all of them have a length, the call
  fails with \<open>BatchSizeMismatchError\<close> if and only if two of them have different
  lengths. The claim as stated promises \<open>BatchSizeMismatchError\<close> whenever two
  lengths differ. Models without a declared input are left out: there the arity check
  lets through calls that it is meant to refuse, see claim C4.
\<close>

theorem predict_batch_size:
  assumes binding: "''self'' \<notin> set (map fst kwargs)"
    and usage: "\<not> (length kwargs = 0 \<and> length args = 0)"
      "\<not> (length kwargs \<noteq> 0 \<and> length args \<noteq> 0)"
    and arity: "\<not> (length kwargs \<noteq> length (inputs self) \<and> length args \<noteq> length (inputs self))"
    and nonzero: "inputs self \<noteq> []"
    and names: "distinct (inputs self)"
  shows "((\<exists>v \<in> set (args @ map snd kwargs). py_len v = Inl TypeError) \<longrightarrow>
            ONNXModel_predict f32 self args kwargs = Inl TypeError)
       \<and> ((\<forall>v \<in> set (args @ map snd kwargs). \<exists>n. py_len v = Inr n) \<longrightarrow>
            (ONNXModel_predict f32 self args kwargs = Inl BatchSizeMismatchError \<longleftrightarrow>
             (\<exists>v \<in> set (args @ map snd kwargs). \<exists>w \<in> set (args @ map snd kwargs).
                py_len v \<noteq> py_len w)))"
proof -
  from usage have xor: "(args = []) \<noteq> (kwargs = [])" by auto
  from xor arity nonzero have count: "length args + length kwargs = length (inputs self)"
    by (cases "args = []") auto
  define kw where "kw = (if args = [] then kwargs else zip (inputs self) args)"
  have vals: "snd ` set kw = set (args @ map snd kwargs)"
  proof (cases "args = []")
    case True
    then show ?thesis by (simp add: kw_def)
  next
    case False
    with xor count have "kwargs = []" "length (inputs self) = length args" by auto
    then have "map snd (zip (inputs self) args) = args" by simp
    then have "snd ` set (zip (inputs self) args) = set args"
      by (metis set_map)
    with False \<open>kwargs = []\<close> show ?thesis by (simp add: kw_def)
  qed
  have ne: "kw \<noteq> []"
    using xor count by (cases args; cases "inputs self") (auto simp: kw_def)
  have eq: "ONNXModel_predict f32 self args kwargs =
     (case lens kw of
        Inl e \<Rightarrow> Inl e
      | Inr ns \<Rightarrow>
          if length (remdups ns) \<noteq> 1 then Inl BatchSizeMismatchError
          else (case run (sess self) (narrow_all f32 kw) of
                  Inl msg \<Rightarrow> Inl (BackendError msg)
                | Inr outs \<Rightarrow> Inr outs))"
  proof (cases "args = []")
    case True
    then have kw: "kw = kwargs" by (simp add: kw_def)
    from True xor count binding show ?thesis
      unfolding kw by (simp add: predict_named)
  next
    case False
    with xor count have "kwargs = []" "length args = length (inputs self)" by auto
    moreover from False have kw: "kw = zip (inputs self) args" by (simp add: kw_def)
    ultimately show ?thesis
      unfolding kw using False names by (simp add: predict_positional)
  qed
  show ?thesis
  proof (intro conjI impI)
    assume "\<exists>v \<in> set (args @ map snd kwargs). py_len v = Inl TypeError"
    then have "\<exists>v \<in> snd ` set kw. py_len v = Inl TypeError"
      unfolding vals .
    then have "lens kw = Inl TypeError" by (rule unsized_lens)
    with eq show "ONNXModel_predict f32 self args kwargs = Inl TypeError" by simp
  next
    assume "\<forall>v \<in> set (args @ map snd kwargs). \<exists>n. py_len v = Inr n"
    with vals obtain ns where ns: "lens kw = Inr ns"
      using sized_lens [of kw] by auto
    from eq ns have "ONNXModel_predict f32 self args kwargs = Inl BatchSizeMismatchError
        \<longleftrightarrow> length (remdups ns) \<noteq> 1"
      by (simp split: sum.splits)
    also note batch_check [OF ne ns]
    finally show "ONNXModel_predict f32 self args kwargs = Inl BatchSizeMismatchError \<longleftrightarrow>
        (\<exists>v \<in> set (args @ map snd kwargs). \<exists>w \<in> set (args @ map snd kwargs).
           py_len v \<noteq> py_len w)"
      unfolding vals .
  qed
qed

text \<open>
  Named inputs of lengths 3 and 4 fail with \<open>BatchSizeMismatchError\<close>; of lengths 4
  and 4 they do not; a number beside an array fails with \<open>TypeError\<close>.
\<close>

theorem predict_batch_size_witness:
  "ONNXModel_predict round32 (echo_model [''image'', ''mask'']) []
       [(''image'', NDArray Float32 [3, 8] 7), (''mask'', NDArray Float32 [4] 2)]
     = Inl BatchSizeMismatchError
   \<and> ONNXModel_predict round32 (echo_model [''image'', ''mask'']) []
       [(''image'', NDArray Float32 [4, 8] 7), (''mask'', NDArray Float32 [4] 2)]
     \<noteq> Inl BatchSizeMismatchError
   \<and> ONNXModel_predict round32 (echo_model [''image'', ''mask'']) []
       [(''image'', NDArray Float32 [4, 8] 7), (''mask'', PyObj None)]
     = Inl TypeError"
  using predict_batch_size [where args = "[]"
      and kwargs = "[(''image'', NDArray Float32 [3, 8] 7), (''mask'', NDArray Float32 [4] 2)]"
      and self = "echo_model [''image'', ''mask'']" and ?f32.0 = round32]
    predict_batch_size [where args = "[]"
      and kwargs = "[(''image'', NDArray Float32 [4, 8] 7), (''mask'', NDArray Float32 [4] 2)]"
      and self = "echo_model [''image'', ''mask'']" and ?f32.0 = round32]
    predict_batch_size [where args = "[]"
      and kwargs = "[(''image'', NDArray Float32 [4, 8] 7), (''mask'', PyObj None)]"
      and self = "echo_model [''image'', ''mask'']" and ?f32.0 = round32]
  by (auto simp: inputs_def echo_model_def)

text \<open>
  Against claim C5 as stated: three named inputs for a model with three inputs, of
  lengths 3 and 4 and a 0-d array. The call passes the usage and arity checks, two of its
  inputs have different lengths, and it fails with \<open>TypeError\<close>.
\<close>

theorem predict_unsized_input:
  "ONNXModel_predict round32 (echo_model [''image'', ''mask'', ''time'']) []
       [(''image'', NDArray Float32 [3, 8] 7), (''mask'', NDArray Float32 [4] 2),
        (''time'', NDArray Float32 [] 5)]
     = Inl TypeError"
  by (simp add: instance_defs)

subsection \<open>Narrowing to single precision\<close>

text \<open>
  Claim C7. A call passes validation when it raises at none of the checks of
  \<^verbatim>\<open>predict\<close> nor in \<^verbatim>\<open>len\<close>. Then the result of the call is the result of
  the backend on the supplied inputs, bound to the slot names when they are positional,
  in which every \<^verbatim>\<open>float64\<close> array is replaced by the \<^verbatim>\<open>float32\<close> array of the
  same shape with the converted elements, and every other value is passed as it is. The
  names and their order are those supplied, no error arises from the narrowing, and the
  outputs are the backend's, untouched.
\<close>

theorem predict_narrows:
  assumes valid: "ONNXModel_predict f32 self args kwargs \<notin>
      {Inl InvalidArgumentUsageError, Inl ArityMismatchError, Inl TypeError,
       Inl BatchSizeMismatchError}"
    and names: "distinct (inputs self)"
  shows "ONNXModel_predict f32 self args kwargs =
     (case run (sess self)
        (map (\<lambda>(name, inp).
               (name, case inp of NDArray Float64 shape d \<Rightarrow> NDArray Float32 shape (f32 d)
                      | _ \<Rightarrow> inp))
             (if args = [] then kwargs else zip (inputs self) args)) of
        Inl msg \<Rightarrow> Inl (BackendError msg)
      | Inr outs \<Rightarrow> Inr outs)"
proof -
  have narrow: "narrow_all f32 kw =
      map (\<lambda>(name, inp).
             (name, case inp of NDArray Float64 shape d \<Rightarrow> NDArray Float32 shape (f32 d)
                    | _ \<Rightarrow> inp)) kw" for kw
    unfolding narrow_all_def narrow_cases ..
  have binding: "''self'' \<notin> set (map fst kwargs)"
  proof
    assume "''self'' \<in> set (map fst kwargs)"
    then have "ONNXModel_predict f32 self args kwargs = Inl TypeError"
      by (simp add: ONNXModel_predict_def)
    with valid show False by simp
  qed
  show ?thesis
  proof (cases "args = []")
    case True
    with valid binding have ne: "kwargs \<noteq> []"
      and len: "length kwargs = length (inputs self) \<or> inputs self = []"
      by (auto simp: ONNXModel_predict_def Let_def split: if_splits)
    note named = predict_named [OF binding ne len]
    from valid True have "lens kwargs \<noteq> Inl e" for e
      using lens_error [of kwargs e] by (auto simp: named)
    then obtain ns where ns: "lens kwargs = Inr ns"
      by (cases "lens kwargs") auto
    with valid True have "length (remdups ns) = 1"
      by (auto simp: named split: if_splits)
    with True ns show ?thesis
      by (simp add: named narrow)
  next
    case False
    with valid binding have kw: "kwargs = []"
      by (auto simp: ONNXModel_predict_def Let_def split: if_splits)
    have len: "length args = length (inputs self)"
    proof (rule ccontr)
      assume neq: "length args \<noteq> length (inputs self)"
      show False
      proof (cases "inputs self = []")
        case True
        with False kw have "ONNXModel_predict f32 self args kwargs = Inl BatchSizeMismatchError"
          by (simp add: ONNXModel_predict_def)
        with valid show False by simp
      next
        case nonempty: False
        with False kw neq have "ONNXModel_predict f32 self args kwargs = Inl ArityMismatchError"
          by (simp add: predict_arity_mismatch)
        with valid show False by simp
      qed
    qed
    let ?kw = "zip (inputs self) args"
    note pos = predict_positional [OF False len names]
    from valid kw have "lens ?kw \<noteq> Inl e" for e
      using lens_error [of ?kw e] by (auto simp: pos)
    then obtain ns where ns: "lens ?kw = Inr ns"
      by (cases "lens ?kw") auto
    with valid kw have "length (remdups ns) = 1"
      by (auto simp: pos split: if_splits)
    with False kw ns show ?thesis
      by (simp add: pos narrow)
  qed
qed

text \<open>
  A \<^verbatim>\<open>float64\<close> array is narrowed, its shape kept; a list beside it is passed as it
  is.
\<close>

theorem predict_narrows_witness:
  "ONNXModel_predict round32 (echo_model [''image'', ''mask''])
       [NDArray Float64 [2, 8] 9, PyList [PyObj None, PyObj None]] []
     = Inr [NDArray Float32 [2, 8] 8, PyList [PyObj None, PyObj None]]"
proof -
  have "ONNXModel_predict round32 (echo_model [''image'', ''mask''])
       [NDArray Float64 [2, 8] 9, PyList [PyObj None, PyObj None]] []
     \<notin> {Inl InvalidArgumentUsageError, Inl ArityMismatchError, Inl TypeError,
         Inl BatchSizeMismatchError}"
    by (simp add: instance_defs)
  from predict_narrows [OF this] show ?thesis
    by (simp add: inputs_def echo_model_def round32_def)
qed

subsection \<open>Positional and named arguments\<close>

text \<open>
  Claim C2, amended. For a model whose slot names differ and are not \<^verbatim>\<open>self\<close>, and
  as many values as the model has slots, the positional call and the named call, keyed by
  the slot names in declared order, have the same result: the same outputs or the same
  error. Both return the backend's outputs when there is at least one value, all values
  have one length and the backend accepts the narrowed inputs. The claim as stated says
  that the positional call succeeds for every tuple of values, and that the named call
  returns the same for every model; the first fails when the values have different
  lengths or the model has no input slot, the second when a slot is called
  \<^verbatim>\<open>self\<close>, a name that cannot be passed as a keyword.
\<close>

theorem predict_positional_named:
  assumes "distinct (inputs self)" and "''self'' \<notin> set (inputs self)"
    and "length args = length (inputs self)"
  shows "ONNXModel_predict f32 self args [] =
           ONNXModel_predict f32 self [] (zip (inputs self) args)
     \<and> (args \<noteq> [] \<and> (\<forall>v \<in> set args. py_len v = Inr n)
          \<and> run (sess self) (narrow_all f32 (zip (inputs self) args)) = Inr outs
        \<longrightarrow> ONNXModel_predict f32 self args [] = Inr outs)"
proof (intro conjI impI)
  show "ONNXModel_predict f32 self args [] =
      ONNXModel_predict f32 self [] (zip (inputs self) args)"
    using assms(1,3,2) by (rule predict_convention_equiv)
next
  assume ok: "args \<noteq> [] \<and> (\<forall>v \<in> set args. py_len v = Inr n)
      \<and> run (sess self) (narrow_all f32 (zip (inputs self) args)) = Inr outs"
  let ?kw = "zip (inputs self) args"
  let ?ns = "map (\<lambda>kv. n) ?kw"
  have "map (\<lambda>kv. py_len (snd kv)) ?kw = map Inr ?ns"
    using ok by (auto dest: set_zip_rightD)
  then have ns: "lens ?kw = Inr ?ns" by (rule lens_Inr_I)
  from ok assms have "?kw \<noteq> []"
    by (cases args; cases "inputs self") auto
  then have "length (remdups ?ns) = 1"
    using remdups_one_iff [of ?ns] by auto
  with ok assms ns show "ONNXModel_predict f32 self args [] = Inr outs"
    by (simp add: predict_positional)
qed

text \<open>Two inputs of length 3, the first one \<^verbatim>\<open>float64\<close>.\<close>

theorem predict_positional_named_witness:
  "ONNXModel_predict round32 (echo_model [''image'', ''mask''])
       [NDArray Float64 [3, 8] 7, NDArray Float32 [3] 2] []
     = ONNXModel_predict round32 (echo_model [''image'', ''mask'']) []
         [(''image'', NDArray Float64 [3, 8] 7), (''mask'', NDArray Float32 [3] 2)]
   \<and> ONNXModel_predict round32 (echo_model [''image'', ''mask''])
       [NDArray Float64 [3, 8] 7, NDArray Float32 [3] 2] []
     = Inr [NDArray Float32 [3, 8] 6, NDArray Float32 [3] 2]"
  using predict_positional_named [where self = "echo_model [''image'', ''mask'']"
      and args = "[NDArray Float64 [3, 8] 7, NDArray Float32 [3] 2]" and n = 3
      and ?f32.0 = round32 and outs = "[NDArray Float32 [3, 8] 6, NDArray Float32 [3] 2]"]
  by (auto simp: inputs_def echo_model_def narrow_all_def narrow_def round32_def)

text \<open>
  Against claim C2 as stated: on a model with two inputs, two positional values of
  lengths 3 and 4 fail; on a model without inputs, the call with its zero values fails;
  on a model whose one input is called \<^verbatim>\<open>self\<close>, the positional call returns and
  the named call fails to bind.
\<close>

theorem predict_unequal_lengths:
  "ONNXModel_predict round32 (echo_model [''image'', ''mask''])
       [NDArray Float32 [3, 8] 7, NDArray Float32 [4] 2] []
     = Inl BatchSizeMismatchError
   \<and> ONNXModel_predict round32 (echo_model []) [] [] = Inl InvalidArgumentUsageError
   \<and> ONNXModel_predict round32 (echo_model [''self'']) [NDArray Float32 [3, 8] 7] []
     = Inr [NDArray Float32 [3, 8] 7]
   \<and> ONNXModel_predict round32 (echo_model [''self'']) [] [(''self'', NDArray Float32 [3, 8] 7)]
     = Inl TypeError"
  by (simp add: instance_defs)

section \<open>Construction of the reconstructor\<close>

lemma load_models_ok:
  "\<forall>(cam_name, path) \<in> set models_paths. \<exists>s. load path = Loaded s \<Longrightarrow>
   \<exists>ms. load_models load models_paths = Inr ms \<and> map fst ms = map fst models_paths"
proof (induction models_paths)
  case Nil
  then show ?case by simp
next
  case (Cons entry models_paths)
  obtain cam_name path where entry: "entry = (cam_name, path)" by (cases entry)
  with Cons.prems obtain s where "load path = Loaded s" by auto
  moreover from Cons obtain ms where
    "load_models load models_paths = Inr ms" "map fst ms = map fst models_paths"
    by auto
  ultimately show ?case
    using entry by (simp add: ONNXModel_init_def)
qed

text \<open>The models are loaded in order: the first path that fails decides.\<close>

lemma load_models_first_failure:
  "\<forall>(c, p) \<in> set pre. \<exists>s. load p = Loaded s \<Longrightarrow> ONNXModel_init load path = Inl e \<Longrightarrow>
   load_models load (pre @ (cam_name, path) # post) = Inl e"
proof (induction pre)
  case Nil
  then show ?case by simp
next
  case (Cons entry pre)
  obtain c p where entry: "entry = (c, p)" by (cases entry)
  with Cons.prems obtain s where "load p = Loaded s" by auto
  moreover from Cons have "load_models load (pre @ (cam_name, path) # post) = Inl e"
    by auto
  ultimately show ?case
    using entry by (simp add: ONNXModel_init_def)
qed

text \<open>
  Claim C6, amended. When every configured model path loads, construction succeeds if the
  configured camera names are all supported, with the configured names as the keys of
  the registry, and otherwise fails with \<open>UnsupportedCameraError\<close> naming exactly the
  configured names that are not supported, in the order of the configuration. When a
  configured path does not load, construction fails at the first such path, whatever the
  camera names are, since the models are loaded before the names are compared: with
  \<open>ModelLoadError\<close> for that path when the backend raised \<^verbatim>\<open>RuntimeError\<close>, and with
  the backend's own exception otherwise. The claim as stated leaves the loading out.
\<close>

theorem init_supported_cameras:
  "((\<forall>(cam_name, path) \<in> set models_paths. \<exists>s. load path = Loaded s) \<longrightarrow>
      (set (map fst models_paths) \<subseteq> set supported \<longrightarrow>
         (\<exists>self. DeepLearningReconstructor_init load supported models_paths = Inr self
            \<and> supported_cameras self = supported
            \<and> map fst (models self) = map fst models_paths))
    \<and> (\<not> set (map fst models_paths) \<subseteq> set supported \<longrightarrow>
         (\<exists>names. DeepLearningReconstructor_init load supported models_paths
              = Inl (UnsupportedCameraError names)
            \<and> names = filter (\<lambda>cam_name. cam_name \<notin> set supported) (map fst models_paths)
            \<and> set names = set (map fst models_paths) - set supported)))
   \<and> (models_paths = pre @ (cam_name, path) # post
        \<and> (\<forall>(c, p) \<in> set pre. \<exists>s. load p = Loaded s) \<longrightarrow>
      (load path = RaisedRuntimeError \<longrightarrow>
         DeepLearningReconstructor_init load supported models_paths
           = Inl (ModelLoadError path))
    \<and> (load path = RaisedOther msg \<longrightarrow>
         DeepLearningReconstructor_init load supported models_paths
           = Inl (BackendError msg)))"
proof (intro conjI impI)
  assume loads: "\<forall>(cam_name, path) \<in> set models_paths. \<exists>s. load path = Loaded s"
  from load_models_ok [OF loads] obtain ms where
    ms: "load_models load models_paths = Inr ms" "map fst ms = map fst models_paths"
    by blast
  let ?bad = "filter (\<lambda>cam_name. cam_name \<notin> set supported) (map fst models_paths)"
  have bad: "?bad = [] \<longleftrightarrow> set (map fst models_paths) \<subseteq> set supported"
    by (auto simp: filter_empty_conv)
  have set_bad: "set ?bad = set (map fst models_paths) - set supported"
    by auto
  {
    assume "set (map fst models_paths) \<subseteq> set supported"
    with ms bad
    show "\<exists>self. DeepLearningReconstructor_init load supported models_paths = Inr self
            \<and> supported_cameras self = supported
            \<and> map fst (models self) = map fst models_paths"
      by (simp add: DeepLearningReconstructor_init_def Let_def del: set_map)
  }
  {
    assume "\<not> set (map fst models_paths) \<subseteq> set supported"
    with ms bad set_bad
    show "\<exists>names. DeepLearningReconstructor_init load supported models_paths
              = Inl (UnsupportedCameraError names)
            \<and> names = filter (\<lambda>cam_name. cam_name \<notin> set supported) (map fst models_paths)
            \<and> set names = set (map fst models_paths) - set supported"
      by (simp add: DeepLearningReconstructor_init_def Let_def del: set_map)
  }
next
  assume first: "models_paths = pre @ (cam_name, path) # post
      \<and> (\<forall>(c, p) \<in> set pre. \<exists>s. load p = Loaded s)"
  assume "load path = RaisedRuntimeError"
  then have "ONNXModel_init load path = Inl (ModelLoadError path)"
    by (simp add: ONNXModel_init_def)
  with first have "load_models load models_paths = Inl (ModelLoadError path)"
    by (simp add: load_models_first_failure)
  then show "DeepLearningReconstructor_init load supported models_paths
      = Inl (ModelLoadError path)"
    by (simp add: DeepLearningReconstructor_init_def)
next
  assume first: "models_paths = pre @ (cam_name, path) # post
      \<and> (\<forall>(c, p) \<in> set pre. \<exists>s. load p = Loaded s)"
  assume "load path = RaisedOther msg"
  then have "ONNXModel_init load path = Inl (BackendError msg)"
    by (simp add: ONNXModel_init_def)
  with first have "load_models load models_paths = Inl (BackendError msg)"
    by (simp add: load_models_first_failure)
  then show "DeepLearningReconstructor_init load supported models_paths
      = Inl (BackendError msg)"
    by (simp add: DeepLearningReconstructor_init_def)
qed

text \<open>
  Configured \<open>{A, B}\<close> against supported \<open>{A, B, C}\<close> succeeds; configured
  \<open>{A, D}\<close> fails and names \<open>D\<close>; when the path of \<open>D\<close> does not load, the
  failure is that of the load, not of the camera name.
\<close>

theorem init_supported_cameras_witness:
  "(\<exists>self. DeepLearningReconstructor_init (\<lambda>path. Loaded (sess (echo_model [''image''])))
        [''A'', ''B'', ''C''] [(''A'', ''a.onnx''), (''B'', ''b.onnx'')] = Inr self
      \<and> supported_cameras self = [''A'', ''B'', ''C'']
      \<and> map fst (models self) = [''A'', ''B''])
   \<and> DeepLearningReconstructor_init (\<lambda>path. Loaded (sess (echo_model [''image''])))
        [''A'', ''B'', ''C''] [(''A'', ''a.onnx''), (''D'', ''d.onnx'')]
      = Inl (UnsupportedCameraError [''D''])
   \<and> DeepLearningReconstructor_init
        (\<lambda>path. if path = ''d.onnx'' then RaisedRuntimeError
                 else Loaded (sess (echo_model [''image''])))
        [''A'', ''B'', ''C''] [(''A'', ''a.onnx''), (''D'', ''d.onnx'')]
      = Inl (ModelLoadError ''d.onnx'')
   \<and> DeepLearningReconstructor_init
        (\<lambda>path. if path = ''d.onnx'' then RaisedOther ''NoSuchFile''
                 else Loaded (sess (echo_model [''image''])))
        [''A'', ''B'', ''C''] [(''A'', ''a.onnx''), (''D'', ''d.onnx'')]
      = Inl (BackendError ''NoSuchFile'')"
  using init_supported_cameras [where load = "\<lambda>path. Loaded (sess (echo_model [''image'']))"
      and supported = "[''A'', ''B'', ''C'']"
      and models_paths = "[(''A'', ''a.onnx''), (''B'', ''b.onnx'')]"
      and pre = "[(''A'', ''a.onnx'')]" and cam_name = "''B''" and path = "''b.onnx''"
      and post = "[]"]
    init_supported_cameras [where load = "\<lambda>path. Loaded (sess (echo_model [''image'']))"
      and supported = "[''A'', ''B'', ''C'']"
      and models_paths = "[(''A'', ''a.onnx''), (''D'', ''d.onnx'')]"
      and pre = "[(''A'', ''a.onnx'')]" and cam_name = "''D''" and path = "''d.onnx''"
      and post = "[]"]
    init_supported_cameras [where load = "\<lambda>path. if path = ''d.onnx'' then RaisedRuntimeError
                 else Loaded (sess (echo_model [''image'']))"
      and supported = "[''A'', ''B'', ''C'']"
      and models_paths = "[(''A'', ''a.onnx''), (''D'', ''d.onnx'')]"
      and pre = "[(''A'', ''a.onnx'')]" and cam_name = "''D''" and path = "''d.onnx''"
      and post = "[]"]
    init_supported_cameras [where load = "\<lambda>path. if path = ''d.onnx'' then RaisedOther ''NoSuchFile''
                 else Loaded (sess (echo_model [''image'']))"
      and supported = "[''A'', ''B'', ''C'']"
      and models_paths = "[(''A'', ''a.onnx''), (''D'', ''d.onnx'')]"
      and pre = "[(''A'', ''a.onnx'')]" and cam_name = "''D''" and path = "''d.onnx''"
      and post = "[]" and msg = "''NoSuchFile''"]
  by simp

text \<open>
  Against claim C6 as stated: the configured camera \<open>A\<close> is supported, the backend
  raises \<^verbatim>\<open>RuntimeError\<close> on its path, and the construction fails.
\<close>

theorem init_load_failure:
  "DeepLearningReconstructor_init (\<lambda>path. RaisedRuntimeError :: nat loaded) [''A'']
     [(''A'', ''a.onnx'')] = Inl (ModelLoadError ''a.onnx'')"
  by (simp add: DeepLearningReconstructor_init_def ONNXModel_init_def)

section \<open>Dispatch\<close>

lemma obs_inputs_Inr:
  "obs_inputs sub cam tels = Inr inps \<Longrightarrow>
   inps = map snd (filter (\<lambda>(tel_id, inp). sub tel_id = Some cam) tels)"
  by (induction tels arbitrary: inps) (auto split: option.splits sum.splits)

lemma obs_inputs_resolved:
  "\<forall>(tel_id, inp) \<in> set tels. sub tel_id \<noteq> None \<Longrightarrow>
   obs_inputs sub cam tels = Inr (map snd (filter (\<lambda>(tel_id, inp). sub tel_id = Some cam) tels))"
  by (induction tels) (auto split: option.splits sum.splits)

lemma predict_each_Inr:
  "predict_each f32 m inps = Inr outs \<Longrightarrow>
   list_all2 (\<lambda>inp out. predict_input f32 m inp = Inr out) inps outs"
  by (induction inps arbitrary: outs) (auto split: sum.splits)

lemma predict_each_total:
  "\<forall>inp \<in> set inps. \<exists>out. predict_input f32 m inp = Inr out \<Longrightarrow>
   \<exists>outs. predict_each f32 m inps = Inr outs"
  by (induction inps) (auto split: sum.splits)

lemma obs_inputs_Inl:
  "obs_inputs sub cam tels = Inl e \<Longrightarrow>
   \<exists>(tel_id, inp) \<in> set tels. sub tel_id = None \<and> e = KeyError tel_id"
  by (induction tels) (auto split: option.splits sum.splits)

lemma predict_each_Inl:
  "predict_each f32 m inps = Inl e \<Longrightarrow> \<exists>inp \<in> set inps. predict_input f32 m inp = Inl e"
  by (induction inps) (auto split: sum.splits)

lemma map_of_None_iff: "map_of ms k = None \<longleftrightarrow> k \<notin> fst ` set ms"
  by (simp add: map_of_eq_None_iff)

text \<open>
  The loop over the supported cameras: the keys it adds, the entries it leaves, the entry
  it writes for a camera with a model, and when it returns.
\<close>

lemma predict_loop_keys:
  "predict_loop f32 ms sub tels cams preds = Inr out \<Longrightarrow>
   fst ` set out = fst ` set preds \<union> (set cams \<inter> fst ` set ms)"
proof (induction cams arbitrary: preds)
  case Nil
  then show ?case by simp
next
  case (Cons cam cams)
  show ?case
  proof (cases "map_of ms cam")
    case None
    with Cons.prems have "predict_loop f32 ms sub tels cams preds = Inr out" by simp
    from Cons.IH [OF this] None show ?thesis
      by (auto simp: map_of_None_iff)
  next
    case (Some m)
    with Cons.prems obtain inps outs where
      "predict_loop f32 ms sub tels cams (dict_set preds cam outs) = Inr out"
      by (auto split: sum.splits)
    from Cons.IH [OF this] have "fst ` set out =
        insert cam (fst ` set preds) \<union> (set cams \<inter> fst ` set ms)"
      by (simp add: keys_dict_set)
    moreover from Some have "cam \<in> fst ` set ms"
      by (metis map_of_None_iff option.distinct(1))
    ultimately show ?thesis by auto
  qed
qed

lemma predict_loop_distinct:
  "predict_loop f32 ms sub tels cams preds = Inr out \<Longrightarrow> distinct (map fst preds) \<Longrightarrow>
   distinct (map fst out)"
proof (induction cams arbitrary: preds)
  case Nil
  then show ?case by simp
next
  case (Cons cam cams)
  then show ?case
    by (auto split: option.splits sum.splits intro: distinct_dict_set)
qed

lemma predict_loop_other:
  "predict_loop f32 ms sub tels cams preds = Inr out \<Longrightarrow>
   cam \<notin> set cams \<or> map_of ms cam = None \<Longrightarrow> map_of out cam = map_of preds cam"
proof (induction cams arbitrary: preds)
  case Nil
  then show ?case by simp
next
  case (Cons c cams)
  show ?case
  proof (cases "map_of ms c")
    case None
    with Cons show ?thesis by auto
  next
    case (Some m)
    with Cons.prems(1) obtain inps outs where
      loop: "predict_loop f32 ms sub tels cams (dict_set preds c outs) = Inr out"
      by (auto split: sum.splits)
    from Cons.prems(2) Some have "cam \<noteq> c" by auto
    moreover from Cons.prems(2) have "cam \<notin> set cams \<or> map_of ms cam = None" by auto
    ultimately show ?thesis
      using Cons.IH [OF loop] by (simp add: map_of_dict_set)
  qed
qed

lemma predict_loop_entry:
  "predict_loop f32 ms sub tels cams preds = Inr out \<Longrightarrow>
   cam \<in> set cams \<Longrightarrow> map_of ms cam = Some m \<Longrightarrow>
   \<exists>inps outs. obs_inputs sub cam tels = Inr inps \<and> predict_each f32 m inps = Inr outs
      \<and> map_of out cam = Some outs"
proof (induction cams arbitrary: preds)
  case Nil
  then show ?case by simp
next
  case (Cons c cams)
  show ?case
  proof (cases "cam \<in> set cams")
    case True
    with Cons show ?thesis
      by (auto split: option.splits sum.splits)
  next
    case False
    with Cons.prems have c: "c = cam" by simp
    with Cons.prems obtain inps outs where
      inps: "obs_inputs sub cam tels = Inr inps" and
      outs: "predict_each f32 m inps = Inr outs" and
      loop: "predict_loop f32 ms sub tels cams (dict_set preds cam outs) = Inr out"
      by (auto split: sum.splits)
    from predict_loop_other [OF loop, of cam] False
    have "map_of out cam = Some outs"
      by (simp add: map_of_dict_set)
    with inps outs show ?thesis by blast
  qed
qed

lemma predict_loop_total:
  "\<forall>cam \<in> set cams. \<forall>m. map_of ms cam = Some m \<longrightarrow>
     (\<exists>inps outs. obs_inputs sub cam tels = Inr inps \<and> predict_each f32 m inps = Inr outs) \<Longrightarrow>
   \<exists>out. predict_loop f32 ms sub tels cams preds = Inr out"
proof (induction cams arbitrary: preds)
  case Nil
  then show ?case by simp
next
  case (Cons c cams)
  show ?case
  proof (cases "map_of ms c")
    case None
    with Cons show ?thesis by simp
  next
    case (Some m)
    with Cons.prems obtain inps outs where
      "obs_inputs sub c tels = Inr inps" "predict_each f32 m inps = Inr outs"
      by auto
    moreover have "\<forall>cam \<in> set cams. \<forall>m. map_of ms cam = Some m \<longrightarrow>
        (\<exists>inps outs. obs_inputs sub cam tels = Inr inps \<and> predict_each f32 m inps = Inr outs)"
      using Cons.prems by simp
    from Cons.IH [OF this, of "dict_set preds c outs"] obtain out where
      "predict_loop f32 ms sub tels cams (dict_set preds c outs) = Inr out"
      by blast
    ultimately show ?thesis using Some by simp
  qed
qed

lemma predict_loop_Inl:
  "predict_loop f32 ms sub tels cams preds = Inl e \<Longrightarrow>
   \<exists>cam \<in> set cams. \<exists>m. map_of ms cam = Some m \<and>
     (obs_inputs sub cam tels = Inl e \<or>
      (\<exists>inps. obs_inputs sub cam tels = Inr inps \<and> predict_each f32 m inps = Inl e))"
proof (induction cams arbitrary: preds)
  case Nil
  then show ?case by simp
next
  case (Cons c cams)
  show ?case
  proof (cases "map_of ms c")
    case None
    with Cons.prems have "predict_loop f32 ms sub tels cams preds = Inl e" by simp
    from Cons.IH [OF this] show ?thesis by auto
  next
    case (Some m)
    show ?thesis
    proof (cases "obs_inputs sub c tels")
      case (Inl e')
      with Cons.prems Some show ?thesis by auto
    next
      case (Inr inps)
      show ?thesis
      proof (cases "predict_each f32 m inps")
        case (Inl e')
        with Cons.prems Some Inr show ?thesis by auto
      next
        case outs: (Inr outs)
        with Cons.prems Some Inr have
          "predict_loop f32 ms sub tels cams (dict_set preds c outs) = Inl e"
          by simp
        from Cons.IH [OF this] show ?thesis by auto
      qed
    qed
  qed
qed

lemma predict_loop_single:
  "predict_loop f32 [(A, m)] sub tels cams preds =
     (if A \<in> set cams
      then (case obs_inputs sub A tels of
              Inl e \<Rightarrow> Inl e
            | Inr inps \<Rightarrow>
                (case predict_each f32 m inps of
                   Inl e \<Rightarrow> Inl e
                 | Inr outs \<Rightarrow> Inr (dict_set preds A outs)))
      else Inr preds)"
proof (induction cams arbitrary: preds)
  case Nil
  then show ?case by simp
next
  case (Cons c cams)
  show ?case
  proof (cases "c = A")
    case True
    then show ?thesis
      by (simp add: Cons.IH dict_set_idem split: sum.splits)
  next
    case False
    then show ?thesis
      by (simp add: Cons.IH)
  qed
qed

lemmas example_defs =
  example_reconstructor_def example_subarray_def example_event_def dispatch_def
  predict_input_def

text \<open>
  Claim C1. Let the reconstructor be constructed with a model for camera type \<open>A\<close>
  only, and let the telescopes of the event resolve, in the order of the input mapping,
  to \<open>A, A, B\<close>, to \<open>A, B, A\<close> or to \<open>B, A, A\<close>. Then exactly two inputs are
  routed to the model, in the order of the mapping, and the dispatch is the two calls of
  the model in that order: when both return, the batch is the one key \<open>A\<close> with
  the two predictions in that order, and otherwise the error is that of the first call
  that failed. The input of the \<open>B\<close> telescope occurs nowhere in the result: no entry
  and no error comes from it.
\<close>

theorem dispatch_two_of_three:
  assumes init: "DeepLearningReconstructor_init load supported [(A, path)] = Inr self"
    and resolve: "map (\<lambda>(tel_id, inp). sub tel_id) tels = map Some cams"
    and cams: "cams \<in> {[A, A, B], [A, B, A], [B, A, A]}" and "B \<noteq> A"
  shows "\<exists>inp1 inp2 model.
     models self = [(A, model)] \<and>
     map snd (filter (\<lambda>(tel_id, inp). sub tel_id = Some A) tels) = [inp1, inp2] \<and>
     dispatch f32 self sub tels =
       (case predict_input f32 model inp1 of
          Inl e \<Rightarrow> Inl e
        | Inr out1 \<Rightarrow>
            (case predict_input f32 model inp2 of
               Inl e \<Rightarrow> Inl e
             | Inr out2 \<Rightarrow> Inr [(A, [out1, out2])]))"
proof -
  from init obtain s where
    self: "self = \<lparr>supported_cameras = supported, models = [(A, \<lparr>sess = s\<rparr>)]\<rparr>"
    and A: "A \<in> set supported"
    by (auto simp: DeepLearningReconstructor_init_def ONNXModel_init_def Let_def
        split: loaded.splits if_splits)
  from resolve cams have "length tels = 3"
    by (metis (no_types, lifting) insertE length_map singletonD length_Cons list.size(3)
        numeral_3_eq_3)
  then obtain t1 x1 t2 x2 t3 x3 where tels: "tels = [(t1, x1), (t2, x2), (t3, x3)]"
    by (auto simp: numeral_3_eq_3 length_Suc_conv)
  from resolve have res: "\<forall>(tel_id, inp) \<in> set tels. sub tel_id \<noteq> None"
    unfolding tels using cams by auto
  note obs = obs_inputs_resolved [OF res, of A]
  from cams resolve \<open>B \<noteq> A\<close> obtain inp1 inp2 where
    two: "map snd (filter (\<lambda>(tel_id, inp). sub tel_id = Some A) tels) = [inp1, inp2]"
    unfolding tels by auto
  have "dispatch f32 self sub tels =
       (case predict_input f32 \<lparr>sess = s\<rparr> inp1 of
          Inl e \<Rightarrow> Inl e
        | Inr out1 \<Rightarrow>
            (case predict_input f32 \<lparr>sess = s\<rparr> inp2 of
               Inl e \<Rightarrow> Inl e
             | Inr out2 \<Rightarrow> Inr [(A, [out1, out2])]))"
    using A by (simp add: dispatch_def self predict_loop_single obs two split: sum.splits)
  with two self show ?thesis by simp
qed

text \<open>
  Telescopes 1 and 3 are of type \<open>A\<close>, telescope 2 of type \<open>B\<close> with an input
  on which every model would raise.
\<close>

theorem dispatch_two_of_three_witness:
  "dispatch round32
      \<lparr>supported_cameras = [''A'', ''B''], models = [(''A'', echo_model [''image''])]\<rparr>
      example_subarray
      [(1, PyList [NDArray Float32 [1] 10]), (2, PyObj None), (3, NDArray Float32 [1] 20)]
   = Inr [(''A'', [[NDArray Float32 [1] 10], [NDArray Float32 [1] 20]])]"
proof -
  let ?self = "\<lparr>supported_cameras = [''A'', ''B''], models = [(''A'', echo_model [''image''])]\<rparr>"
  let ?tels = "[(1::nat, PyList [NDArray Float32 [1] (10::nat)]), (2, PyObj None),
      (3, NDArray Float32 [1] 20)]"
  have init: "DeepLearningReconstructor_init (\<lambda>path. Loaded (sess (echo_model [''image''])))
      [''A'', ''B''] [(''A'', ''a.onnx'')] = Inr ?self"
    by (simp add: DeepLearningReconstructor_init_def ONNXModel_init_def echo_model_def)
  have resolve: "map (\<lambda>(tel_id, inp). example_subarray tel_id) ?tels
      = map Some [''A'', ''B'', ''A'']"
    by (simp add: example_subarray_def)
  have cams: "[''A'', ''B'', ''A'']
      \<in> {[''A'', ''A'', ''B''], [''A'', ''B'', ''A''], [''B'', ''A'', ''A'']}"
    by simp
  have neq: "''B'' \<noteq> ''A''" by simp
  have routed: "map snd (filter (\<lambda>(tel_id, inp). example_subarray tel_id = Some ''A'') ?tels)
      = [PyList [NDArray Float32 [1] 10], NDArray Float32 [1] 20]"
    by (simp add: example_subarray_def)
  from dispatch_two_of_three [OF init resolve cams neq, of round32] show ?thesis
    unfolding routed by (auto simp: predict_input_def instance_defs)
qed

lemma obs_inputs_Inr_resolved:
  "obs_inputs sub cam tels = Inr inps \<Longrightarrow> \<forall>(tel_id, inp) \<in> set tels. sub tel_id \<noteq> None"
  by (induction tels arbitrary: inps) (auto split: option.splits sum.splits)

text \<open>
  The dispatch returns exactly when, for every camera type that is supported and
  configured, every telescope of the event is known to the subarray and the call for
  every telescope of that type returns.
\<close>

lemma dispatch_returns_iff:
  "(\<exists>batch. dispatch f32 self sub tels = Inr batch) \<longleftrightarrow>
   (\<forall>cam_name \<in> set (supported_cameras self). \<forall>model.
      map_of (models self) cam_name = Some model \<longrightarrow>
      (\<forall>(tel_id, inp) \<in> set tels. \<exists>c. sub tel_id = Some c \<and>
         (c = cam_name \<longrightarrow> (\<exists>out. predict_input f32 model inp = Inr out))))"
  (is "?returns \<longleftrightarrow> ?calls")
proof
  assume ?returns
  then obtain batch where
    loop: "predict_loop f32 (models self) sub tels (supported_cameras self) [] = Inr batch"
    by (auto simp: dispatch_def)
  show ?calls
  proof (rule ballI, rule allI, rule impI)
    fix cam_name model
    assume cam: "cam_name \<in> set (supported_cameras self)"
      and model: "map_of (models self) cam_name = Some model"
    from predict_loop_entry [OF loop cam model] obtain inps outs where
      inps: "obs_inputs sub cam_name tels = Inr inps" and
      outs: "predict_each f32 model inps = Inr outs"
      by blast
    from predict_each_Inr [OF outs]
    have each: "\<forall>inp \<in> set inps. \<exists>out. predict_input f32 model inp = Inr out"
      by (auto simp: list_all2_conv_all_nth in_set_conv_nth)
    show "\<forall>(tel_id, inp) \<in> set tels. \<exists>c. sub tel_id = Some c \<and>
         (c = cam_name \<longrightarrow> (\<exists>out. predict_input f32 model inp = Inr out))"
    proof
      fix entry
      assume "entry \<in> set tels"
      moreover obtain tel_id inp where entry: "entry = (tel_id, inp)" by (cases entry)
      ultimately have tel: "(tel_id, inp) \<in> set tels" by simp
      with obs_inputs_Inr_resolved [OF inps] obtain c where c: "sub tel_id = Some c"
        by auto
      have "\<exists>out. predict_input f32 model inp = Inr out" if "c = cam_name"
      proof -
        from that tel c obs_inputs_Inr [OF inps] have "inp \<in> set inps"
          by force
        with each show ?thesis by blast
      qed
      with c entry show "case entry of (tel_id, inp) \<Rightarrow> \<exists>c. sub tel_id = Some c \<and>
         (c = cam_name \<longrightarrow> (\<exists>out. predict_input f32 model inp = Inr out))"
        by simp
    qed
  qed
next
  assume calls: ?calls
  have "\<forall>cam_name \<in> set (supported_cameras self). \<forall>model.
      map_of (models self) cam_name = Some model \<longrightarrow>
      (\<exists>inps outs. obs_inputs sub cam_name tels = Inr inps \<and>
         predict_each f32 model inps = Inr outs)"
  proof (intro ballI allI impI)
    fix cam_name model
    assume cam: "cam_name \<in> set (supported_cameras self)"
      and model: "map_of (models self) cam_name = Some model"
    with calls have tels: "\<forall>(tel_id, inp) \<in> set tels. \<exists>c. sub tel_id = Some c \<and>
         (c = cam_name \<longrightarrow> (\<exists>out. predict_input f32 model inp = Inr out))"
      by blast
    then have resolved: "\<forall>(tel_id, inp) \<in> set tels. sub tel_id \<noteq> None"
      by fastforce
    let ?inps = "map snd (filter (\<lambda>(tel_id, inp). sub tel_id = Some cam_name) tels)"
    have "\<forall>inp \<in> set ?inps. \<exists>out. predict_input f32 model inp = Inr out"
      using tels by fastforce
    from predict_each_total [OF this] obs_inputs_resolved [OF resolved, of cam_name]
    show "\<exists>inps outs. obs_inputs sub cam_name tels = Inr inps \<and>
         predict_each f32 model inps = Inr outs"
      by blast
  qed
  from predict_loop_total [OF this] show ?returns
    by (simp add: dispatch_def)
qed

text \<open>
  Claim C8, amended. For every telescope input routed during dispatch, the model of its
  camera type is called with the elements as positional arguments when the input is a
  \<^verbatim>\<open>list\<close>, with the entries as named arguments when it is a \<^verbatim>\<open>dict\<close>, and with
  the input as the single positional argument otherwise: for a bare array, and also for
  a tuple or any other sequence or mapping that is no \<^verbatim>\<open>list\<close> or \<^verbatim>\<open>dict\<close>. The
  dispatch is these calls and nothing else:
  \<^item> it returns a batch exactly when, for every camera type that is supported and
    configured, every telescope is known to the subarray and each of these calls
    returns for the telescopes of that type;
  \<^item> in a batch it returns, a camera type has an entry exactly when it is supported and
    configured, and the entry is, input by input in the order of the input mapping, what
    these calls return;
  \<^item> an error it raises is the \<open>KeyError\<close> of a telescope the subarray does not
    know, or the error of one of these calls.
  The claim as stated unpacks every sequence and every mapping.
\<close>

theorem dispatch_call_convention:
  "((\<exists>batch. dispatch f32 self sub tels = Inr batch) \<longleftrightarrow>
      (\<forall>cam_name \<in> set (supported_cameras self). \<forall>model.
         map_of (models self) cam_name = Some model \<longrightarrow>
         (\<forall>(tel_id, inp) \<in> set tels. \<exists>c. sub tel_id = Some c \<and>
            (c = cam_name \<longrightarrow>
               (\<exists>out.
                  (case inp of
                  PyList xs \<Rightarrow> ONNXModel_predict f32 model xs []
                | PyDict kws \<Rightarrow> ONNXModel_predict f32 model [] kws
                | _ \<Rightarrow> ONNXModel_predict f32 model [inp] []) = Inr out)))))
   \<and> (dispatch f32 self sub tels = Inr predictions \<longrightarrow>
        (case map_of predictions cam_name of
           None \<Rightarrow>
             cam_name \<notin> set (supported_cameras self) \<or> map_of (models self) cam_name = None
         | Some outs \<Rightarrow>
             cam_name \<in> set (supported_cameras self) \<and>
             (\<exists>model. map_of (models self) cam_name = Some model \<and>
                list_all2
                  (\<lambda>inp out.
                     (case inp of
                  PyList xs \<Rightarrow> ONNXModel_predict f32 model xs []
                | PyDict kws \<Rightarrow> ONNXModel_predict f32 model [] kws
                | _ \<Rightarrow> ONNXModel_predict f32 model [inp] []) = Inr out)
                  (map snd (filter (\<lambda>(tel_id, inp). sub tel_id = Some cam_name) tels))
                  outs)))
   \<and> (dispatch f32 self sub tels = Inl e \<longrightarrow>
        (\<exists>(tel_id, inp) \<in> set tels. sub tel_id = None \<and> e = KeyError tel_id)
      \<or> (\<exists>(tel_id, inp) \<in> set tels. \<exists>cam_name model.
            sub tel_id = Some cam_name \<and> cam_name \<in> set (supported_cameras self) \<and>
            map_of (models self) cam_name = Some model \<and>
            (case inp of
                  PyList xs \<Rightarrow> ONNXModel_predict f32 model xs []
                | PyDict kws \<Rightarrow> ONNXModel_predict f32 model [] kws
                | _ \<Rightarrow> ONNXModel_predict f32 model [inp] []) = Inl e))"
proof (intro conjI)
  show "(\<exists>batch. dispatch f32 self sub tels = Inr batch) \<longleftrightarrow>
      (\<forall>cam_name \<in> set (supported_cameras self). \<forall>model.
         map_of (models self) cam_name = Some model \<longrightarrow>
         (\<forall>(tel_id, inp) \<in> set tels. \<exists>c. sub tel_id = Some c \<and>
            (c = cam_name \<longrightarrow>
               (\<exists>out.
                  (case inp of
                  PyList xs \<Rightarrow> ONNXModel_predict f32 model xs []
                | PyDict kws \<Rightarrow> ONNXModel_predict f32 model [] kws
                | _ \<Rightarrow> ONNXModel_predict f32 model [inp] []) = Inr out))))"
    using dispatch_returns_iff [of f32 self sub tels]
    unfolding predict_input_def .
next
  show "dispatch f32 self sub tels = Inr predictions \<longrightarrow>
        (case map_of predictions cam_name of
           None \<Rightarrow>
             cam_name \<notin> set (supported_cameras self) \<or> map_of (models self) cam_name = None
         | Some outs \<Rightarrow>
             cam_name \<in> set (supported_cameras self) \<and>
             (\<exists>model. map_of (models self) cam_name = Some model \<and>
                list_all2
                  (\<lambda>inp out.
                     (case inp of
                  PyList xs \<Rightarrow> ONNXModel_predict f32 model xs []
                | PyDict kws \<Rightarrow> ONNXModel_predict f32 model [] kws
                | _ \<Rightarrow> ONNXModel_predict f32 model [inp] []) = Inr out)
                  (map snd (filter (\<lambda>(tel_id, inp). sub tel_id = Some cam_name) tels))
                  outs))"
  proof
  assume "dispatch f32 self sub tels = Inr predictions"
  then have loop: "predict_loop f32 (models self) sub tels (supported_cameras self) []
      = Inr predictions"
    by (simp add: dispatch_def)
  show "case map_of predictions cam_name of
           None \<Rightarrow>
             cam_name \<notin> set (supported_cameras self) \<or> map_of (models self) cam_name = None
         | Some outs \<Rightarrow>
             cam_name \<in> set (supported_cameras self) \<and>
             (\<exists>model. map_of (models self) cam_name = Some model \<and>
                list_all2
                  (\<lambda>inp out.
                     (case inp of
                  PyList xs \<Rightarrow> ONNXModel_predict f32 model xs []
                | PyDict kws \<Rightarrow> ONNXModel_predict f32 model [] kws
                | _ \<Rightarrow> ONNXModel_predict f32 model [inp] []) = Inr out)
                  (map snd (filter (\<lambda>(tel_id, inp). sub tel_id = Some cam_name) tels))
                  outs)"
  proof (cases "cam_name \<in> set (supported_cameras self) \<and> map_of (models self) cam_name \<noteq> None")
    case False
    then have "map_of predictions cam_name = map_of [] cam_name"
      using predict_loop_other [OF loop, of cam_name] by auto
    with False show ?thesis by auto
  next
    case True
    then obtain model where cam: "cam_name \<in> set (supported_cameras self)"
      and model: "map_of (models self) cam_name = Some model"
      by auto
    from predict_loop_entry [OF loop cam model] obtain inps outs where
      inps: "obs_inputs sub cam_name tels = Inr inps" and
      outs: "predict_each f32 model inps = Inr outs" and
      entry: "map_of predictions cam_name = Some outs"
      by auto
    from predict_each_Inr [OF outs] obs_inputs_Inr [OF inps]
    have "list_all2
        (\<lambda>inp out.
           (case inp of
                  PyList xs \<Rightarrow> ONNXModel_predict f32 model xs []
                | PyDict kws \<Rightarrow> ONNXModel_predict f32 model [] kws
                | _ \<Rightarrow> ONNXModel_predict f32 model [inp] []) = Inr out)
        (map snd (filter (\<lambda>(tel_id, inp). sub tel_id = Some cam_name) tels)) outs"
      unfolding predict_input_def by simp
    with cam model entry show ?thesis by simp
  qed
  qed
next
  show "dispatch f32 self sub tels = Inl e \<longrightarrow>
        (\<exists>(tel_id, inp) \<in> set tels. sub tel_id = None \<and> e = KeyError tel_id)
      \<or> (\<exists>(tel_id, inp) \<in> set tels. \<exists>cam_name model.
            sub tel_id = Some cam_name \<and> cam_name \<in> set (supported_cameras self) \<and>
            map_of (models self) cam_name = Some model \<and>
            (case inp of
                  PyList xs \<Rightarrow> ONNXModel_predict f32 model xs []
                | PyDict kws \<Rightarrow> ONNXModel_predict f32 model [] kws
                | _ \<Rightarrow> ONNXModel_predict f32 model [inp] []) = Inl e)"
  proof
  assume "dispatch f32 self sub tels = Inl e"
  then have "predict_loop f32 (models self) sub tels (supported_cameras self) [] = Inl e"
    by (simp add: dispatch_def)
  from predict_loop_Inl [OF this] obtain cam model where
    cam: "cam \<in> set (supported_cameras self)" and
    model: "map_of (models self) cam = Some model" and
    failed: "obs_inputs sub cam tels = Inl e \<or>
      (\<exists>inps. obs_inputs sub cam tels = Inr inps \<and> predict_each f32 model inps = Inl e)"
    by blast
  from failed show "(\<exists>(tel_id, inp) \<in> set tels. sub tel_id = None \<and> e = KeyError tel_id)
      \<or> (\<exists>(tel_id, inp) \<in> set tels. \<exists>cam_name model.
            sub tel_id = Some cam_name \<and> cam_name \<in> set (supported_cameras self) \<and>
            map_of (models self) cam_name = Some model \<and>
            (case inp of
                  PyList xs \<Rightarrow> ONNXModel_predict f32 model xs []
                | PyDict kws \<Rightarrow> ONNXModel_predict f32 model [] kws
                | _ \<Rightarrow> ONNXModel_predict f32 model [inp] []) = Inl e)"
  proof
    assume "obs_inputs sub cam tels = Inl e"
    from obs_inputs_Inl [OF this] show ?thesis by blast
  next
    assume "\<exists>inps. obs_inputs sub cam tels = Inr inps \<and> predict_each f32 model inps = Inl e"
    then obtain inps where inps: "obs_inputs sub cam tels = Inr inps"
      and "predict_each f32 model inps = Inl e"
      by blast
    from predict_each_Inl [OF this(2)] obtain inp where
      "inp \<in> set inps" and call: "predict_input f32 model inp = Inl e"
      by blast
    with obs_inputs_Inr [OF inps] obtain tel_id where
      "(tel_id, inp) \<in> set tels" "sub tel_id = Some cam"
      by auto
    with cam model call have "\<exists>(tel_id, inp) \<in> set tels. \<exists>cam_name model.
            sub tel_id = Some cam_name \<and> cam_name \<in> set (supported_cameras self) \<and>
            map_of (models self) cam_name = Some model \<and>
            (case inp of
                  PyList xs \<Rightarrow> ONNXModel_predict f32 model xs []
                | PyDict kws \<Rightarrow> ONNXModel_predict f32 model [] kws
                | _ \<Rightarrow> ONNXModel_predict f32 model [inp] []) = Inl e"
      unfolding predict_input_def by blast
    then show ?thesis ..
  qed
  qed
qed

text \<open>
  A list for telescope 1 and a dict for telescope 3, both routed to the model of \<open>A\<close>:
  the dispatch returns, and the entry of \<open>A\<close> holds what the two calls return. An
  event with a telescope that the subarray does not know raises its \<open>KeyError\<close>.
\<close>

theorem dispatch_call_convention_witness:
  "(\<exists>batch. dispatch round32 example_reconstructor example_subarray example_event = Inr batch)
   \<and> dispatch round32 example_reconstructor example_subarray example_event
     = Inr [(''A'', [[NDArray Float32 [1] 10], [NDArray Float32 [1] 20]]), (''C'', [])]
   \<and> list_all2
     (\<lambda>inp out.
        (case inp of
           PyList xs \<Rightarrow> ONNXModel_predict round32 (echo_model [''image'']) xs []
         | PyDict kws \<Rightarrow> ONNXModel_predict round32 (echo_model [''image'']) [] kws
         | _ \<Rightarrow> ONNXModel_predict round32 (echo_model [''image'']) [inp] []) = Inr out)
     [PyList [NDArray Float32 [1] 10], PyDict [(''image'', NDArray Float64 [1] 21)]]
     [[NDArray Float32 [1] 10], [NDArray Float32 [1] 20]]
   \<and> dispatch round32 example_reconstructor example_subarray [(9, PyObj None)]
     = Inl (KeyError 9)"
proof -
  let ?batch = "[(''A'', [[NDArray Float32 [1] 10], [NDArray Float32 [1] (20::nat)]]), (''C'', [])]"
  note conv = dispatch_call_convention [where ?f32.0 = round32 and self = example_reconstructor
      and sub = example_subarray and tels = example_event and predictions = ?batch
      and cam_name = "''A''"]
  have calls: "\<forall>cam_name \<in> set (supported_cameras example_reconstructor). \<forall>model.
      map_of (models example_reconstructor) cam_name = Some model \<longrightarrow>
      (\<forall>(tel_id, inp) \<in> set example_event. \<exists>c. example_subarray tel_id = Some c \<and>
         (c = cam_name \<longrightarrow>
            (\<exists>out.
               (case inp of
                  PyList xs \<Rightarrow> ONNXModel_predict round32 model xs []
                | PyDict kws \<Rightarrow> ONNXModel_predict round32 model [] kws
                | _ \<Rightarrow> ONNXModel_predict round32 model [inp] []) = Inr out)))"
    by (simp add: example_event_def example_subarray_def example_reconstructor_def
        instance_defs)
  from conv calls
  have returns: "\<exists>batch. dispatch round32 example_reconstructor example_subarray example_event
      = Inr batch"
    by blast
  have run: "dispatch round32 example_reconstructor example_subarray example_event = Inr ?batch"
    by (simp add: example_defs instance_defs)
  from conv run have entry: "list_all2
     (\<lambda>inp out.
        (case inp of
           PyList xs \<Rightarrow> ONNXModel_predict round32 (echo_model [''image'']) xs []
         | PyDict kws \<Rightarrow> ONNXModel_predict round32 (echo_model [''image'']) [] kws
         | _ \<Rightarrow> ONNXModel_predict round32 (echo_model [''image'']) [inp] []) = Inr out)
     [PyList [NDArray Float32 [1] 10], PyDict [(''image'', NDArray Float64 [1] 21)]]
     [[NDArray Float32 [1] 10], [NDArray Float32 [1] 20]]"
    by (simp add: example_defs)
  have unknown: "dispatch round32 example_reconstructor example_subarray [(9, PyObj None)]
      = Inl (KeyError 9)"
    by (simp add: example_reconstructor_def example_subarray_def dispatch_def)
  from returns run entry unknown show ?thesis by blast
qed

text \<open>
  Against claim C8 as stated: the input of the telescope is a tuple of two arrays, a
  sequence, and the model has two inputs. Unpacked, the two arrays are a call that
  returns; the dispatch passes the tuple as one argument, and the call fails the arity
  check.
\<close>

theorem dispatch_tuple_not_unpacked:
  "dispatch round32
      \<lparr>supported_cameras = [''A''], models = [(''A'', echo_model [''image'', ''mask''])]\<rparr>
      example_subarray
      [(1, PyTuple [NDArray Float32 [1, 8] 10, NDArray Float32 [1] 3])]
     = Inl ArityMismatchError
   \<and> ONNXModel_predict round32 (echo_model [''image'', ''mask''])
       [NDArray Float32 [1, 8] 10, NDArray Float32 [1] 3] []
     = Inr [NDArray Float32 [1, 8] 10, NDArray Float32 [1] 3]"
  by (simp add: dispatch_def example_subarray_def predict_input_def instance_defs)

text \<open>
  Claim C9. The keys of a batch that the dispatch returns are the camera types that are
  both supported and configured, each once, whatever telescopes the event has; a camera
  type among them of which the event has no telescope has the empty sequence as its
  value. The dispatch returns a batch whenever every telescope of the event is known to
  the subarray and every call it routes to a model returns.
\<close>

theorem dispatch_keys:
  "(dispatch f32 self sub tels = Inr predictions \<longrightarrow>
       set (map fst predictions) = set (supported_cameras self) \<inter> set (map fst (models self))
     \<and> distinct (map fst predictions)
     \<and> (\<forall>cam_name \<in> set (supported_cameras self) \<inter> set (map fst (models self)).
          (\<forall>(tel_id, inp) \<in> set tels. sub tel_id \<noteq> Some cam_name) \<longrightarrow>
          map_of predictions cam_name = Some []))
   \<and> ((\<forall>(tel_id, inp) \<in> set tels. \<exists>cam_name. sub tel_id = Some cam_name \<and>
          (\<forall>model. cam_name \<in> set (supported_cameras self) \<and>
               map_of (models self) cam_name = Some model \<longrightarrow>
             (\<exists>out. predict_input f32 model inp = Inr out))) \<longrightarrow>
       (\<exists>batch. dispatch f32 self sub tels = Inr batch))"
proof (intro conjI impI ballI)
  assume loop: "dispatch f32 self sub tels = Inr predictions"
  note loop' = loop [unfolded dispatch_def]
  from predict_loop_keys [OF loop']
  show "set (map fst predictions) = set (supported_cameras self) \<inter> set (map fst (models self))"
    by simp
  from predict_loop_distinct [OF loop'] show "distinct (map fst predictions)"
    by simp
  fix cam_name
  assume cam: "cam_name \<in> set (supported_cameras self) \<inter> set (map fst (models self))"
    and none: "\<forall>(tel_id, inp) \<in> set tels. sub tel_id \<noteq> Some cam_name"
  from cam obtain model where model: "map_of (models self) cam_name = Some model"
    by (metis IntD2 map_of_None_iff not_Some_eq set_map)
  from cam have "cam_name \<in> set (supported_cameras self)" by simp
  from predict_loop_entry [OF loop' this model] obtain inps outs where
    inps: "obs_inputs sub cam_name tels = Inr inps" and
    outs: "predict_each f32 model inps = Inr outs" and
    entry: "map_of predictions cam_name = Some outs"
    by blast
  from none have "filter (\<lambda>(tel_id, inp). sub tel_id = Some cam_name) tels = []"
    by (auto simp: filter_empty_conv)
  with obs_inputs_Inr [OF inps] have "inps = []" by simp
  with outs entry show "map_of predictions cam_name = Some []" by simp
next
  assume ok: "\<forall>(tel_id, inp) \<in> set tels. \<exists>cam_name. sub tel_id = Some cam_name \<and>
          (\<forall>model. cam_name \<in> set (supported_cameras self) \<and>
               map_of (models self) cam_name = Some model \<longrightarrow>
             (\<exists>out. predict_input f32 model inp = Inr out))"
  then have resolved: "\<forall>(tel_id, inp) \<in> set tels. sub tel_id \<noteq> None"
    by fastforce
  have "\<forall>cam_name \<in> set (supported_cameras self). \<forall>model.
      map_of (models self) cam_name = Some model \<longrightarrow>
      (\<exists>inps outs. obs_inputs sub cam_name tels = Inr inps \<and>
         predict_each f32 model inps = Inr outs)"
  proof (intro ballI allI impI)
    fix cam_name model
    assume cam: "cam_name \<in> set (supported_cameras self)"
      and model: "map_of (models self) cam_name = Some model"
    let ?inps = "map snd (filter (\<lambda>(tel_id, inp). sub tel_id = Some cam_name) tels)"
    have "\<forall>inp \<in> set ?inps. \<exists>out. predict_input f32 model inp = Inr out"
      using ok cam model by fastforce
    from predict_each_total [OF this] obs_inputs_resolved [OF resolved, of cam_name]
    show "\<exists>inps outs. obs_inputs sub cam_name tels = Inr inps \<and>
         predict_each f32 model inps = Inr outs"
      by blast
  qed
  from predict_loop_total [OF this]
  show "\<exists>batch. dispatch f32 self sub tels = Inr batch"
    by (simp add: dispatch_def)
qed

text \<open>
  Camera \<open>C\<close> is supported and configured and the event has no telescope of it: its
  key is there, with the empty list.
\<close>

theorem dispatch_keys_witness:
  "dispatch round32 example_reconstructor example_subarray example_event
     = Inr [(''A'', [[NDArray Float32 [1] 10], [NDArray Float32 [1] 20]]), (''C'', [])]
   \<and> set (map fst [(''A'', [[NDArray Float32 [1] 10], [NDArray Float32 [1] (20::nat)]]), (''C'', [])])
     = set (supported_cameras example_reconstructor)
         \<inter> set (map fst (models example_reconstructor))
   \<and> map_of [(''A'', [[NDArray Float32 [1] 10], [NDArray Float32 [1] (20::nat)]]), (''C'', [])] ''C''
     = Some []"
proof -
  let ?batch = "[(''A'', [[NDArray Float32 [1] 10], [NDArray Float32 [1] (20::nat)]]), (''C'', [])]"
  have run: "dispatch round32 example_reconstructor example_subarray example_event = Inr ?batch"
    by (simp add: example_defs instance_defs)
  have C: "''C'' \<in> set (supported_cameras example_reconstructor)
      \<inter> set (map fst (models example_reconstructor))"
    by (simp add: example_reconstructor_def)
  have none: "\<forall>(tel_id, inp) \<in> set example_event. example_subarray tel_id \<noteq> Some ''C''"
    by (simp add: example_event_def example_subarray_def)
  from dispatch_keys [of round32 example_reconstructor example_subarray example_event ?batch]
    run C none
  show ?thesis by blast
qed

section \<open>What a call leaves unchanged\<close>

lemma deref_Nil [simp]: "deref s [] = []"
  by (simp add: deref_def)

lemma keys_deref [simp]: "map fst (deref s kwargs) = map fst kwargs"
  by (induction kwargs) (auto simp: deref_def)

lemma deref_cong:
  "\<forall>a \<in> snd ` set kwargs. heap s' a = heap s a \<Longrightarrow> deref s' kwargs = deref s kwargs"
  by (auto simp: deref_def)

lemma narrow_refs_frame:
  "narrow_refs f32 kwargs s = (kwargs', s') \<Longrightarrow>
   used s \<le> used s' \<and> (\<forall>a < used s. heap s' a = heap s a)
   \<and> reconstructor s' = reconstructor s"
proof (induction kwargs arbitrary: s kwargs' s')
  case Nil
  then show ?case by simp
next
  case (Cons entry kwargs)
  obtain name a where entry: "entry = (name, a)" by (cases entry)
  show ?case
  proof (cases "is_float64_array (heap s a)")
    case True
    define s1 where "s1 = snd (alloc (astype_float32 f32 (heap s a)) s)"
    from Cons.prems entry True obtain kws where
      rest: "narrow_refs f32 kwargs s1 = (kws, s')"
      by (auto simp: s1_def alloc_def split: prod.splits)
    have "used s1 = Suc (used s)" "\<forall>b < used s. heap s1 b = heap s b"
      "reconstructor s1 = reconstructor s"
      by (simp_all add: s1_def alloc_def)
    with Cons.IH [OF rest] show ?thesis by auto
  next
    case False
    with Cons.prems entry obtain kws where "narrow_refs f32 kwargs s = (kws, s')"
      by (auto split: prod.splits)
    from Cons.IH [OF this] show ?thesis .
  qed
qed

lemma narrow_refs_deref:
  "narrow_refs f32 kwargs s = (kwargs', s') \<Longrightarrow> \<forall>a \<in> snd ` set kwargs. a < used s \<Longrightarrow>
   deref s' kwargs' = narrow_all f32 (deref s kwargs)"
proof (induction kwargs arbitrary: s kwargs' s')
  case Nil
  then show ?case by (simp add: deref_def narrow_all_def)
next
  case (Cons entry kwargs)
  obtain name a where entry: "entry = (name, a)" by (cases entry)
  from Cons.prems(2) entry have a: "a < used s"
    and rest_valid: "\<forall>b \<in> snd ` set kwargs. b < used s"
    by auto
  show ?case
  proof (cases "is_float64_array (heap s a)")
    case True
    define s1 where "s1 = snd (alloc (astype_float32 f32 (heap s a)) s)"
    from Cons.prems(1) entry True obtain kws where
      rest: "narrow_refs f32 kwargs s1 = (kws, s')" and
      kwargs': "kwargs' = (name, used s) # kws"
      by (auto simp: s1_def alloc_def split: prod.splits)
    have s1: "used s1 = Suc (used s)" "\<forall>b < used s. heap s1 b = heap s b"
      "heap s1 (used s) = astype_float32 f32 (heap s a)"
      by (simp_all add: s1_def alloc_def)
    from rest_valid s1 have valid1: "\<forall>b \<in> snd ` set kwargs. b < used s1" by auto
    from rest_valid s1 have same: "deref s1 kwargs = deref s kwargs"
      by (intro deref_cong) auto
    from narrow_refs_frame [OF rest] s1 have "heap s' (used s) = astype_float32 f32 (heap s a)"
      by auto
    with Cons.IH [OF rest valid1] same kwargs' entry True show ?thesis
      by (simp add: deref_def narrow_all_def narrow_def)
  next
    case False
    with Cons.prems(1) entry obtain kws where
      rest: "narrow_refs f32 kwargs s = (kws, s')" and
      kwargs': "kwargs' = (name, a) # kws"
      by (auto split: prod.splits)
    from narrow_refs_frame [OF rest] a have "heap s' a = heap s a" by auto
    with Cons.IH [OF rest rest_valid] kwargs' entry False show ?thesis
      by (simp add: deref_def narrow_all_def narrow_def)
  qed
qed

lemma predict_refs_passed:
  assumes "''self'' \<notin> set (map fst kwargs)" and "(args = []) \<noteq> (kwargs = [])"
    and "length kwargs = length (inputs self) \<or> length args = length (inputs self)"
  shows "ONNXModel_predict_refs f32 self args kwargs s =
     (case (if args = [] then Inr kwargs
            else assign_args (inputs self) args [0..<length (inputs self)] kwargs) of
        Inl e \<Rightarrow> (Inl e, s)
      | Inr kwargs' \<Rightarrow>
          (case lens (deref s kwargs') of
             Inl e \<Rightarrow> (Inl e, s)
           | Inr n_predictions \<Rightarrow>
               if length (remdups n_predictions) \<noteq> 1 then (Inl BatchSizeMismatchError, s)
               else
                 (case narrow_refs f32 kwargs' s of
                    (kwargs'', s') \<Rightarrow>
                      ((case run (sess self) (deref s' kwargs'') of
                          Inl msg \<Rightarrow> Inl (BackendError msg)
                        | Inr outs \<Rightarrow> Inr outs), s'))))"
  using assms by (auto simp: ONNXModel_predict_refs_def Let_def)

lemma predict_refs_frame:
  assumes "ONNXModel_predict_refs f32 self args kwargs s = (result, s')"
  shows "used s \<le> used s' \<and> (\<forall>a < used s. heap s' a = heap s a)
     \<and> reconstructor s' = reconstructor s"
proof (cases "s' = s")
  case True
  then show ?thesis by simp
next
  case False
  with assms obtain kws kws' where "narrow_refs f32 kws s = (kws', s')"
    by (auto simp: ONNXModel_predict_refs_def Let_def split: if_splits sum.splits prod.splits)
  then show ?thesis by (rule narrow_refs_frame)
qed

text \<open>On allocated arguments the call on references returns what the call on values returns.\<close>

lemma predict_refs_result:
  assumes valid: "\<forall>a \<in> set args \<union> snd ` set kwargs. a < used s"
  shows "fst (ONNXModel_predict_refs f32 self args kwargs s) =
         ONNXModel_predict f32 self (map (heap s) args) (deref s kwargs)"
proof (cases "''self'' \<notin> set (map fst kwargs) \<and> (args = []) \<noteq> (kwargs = []) \<and>
    (length kwargs = length (inputs self) \<or> length args = length (inputs self))")
  case False
  have "length (deref s kwargs) = length kwargs"
    by (simp add: deref_def)
  with False show ?thesis
    unfolding ONNXModel_predict_refs_def ONNXModel_predict_def Let_def keys_deref
    by auto
next
  case True
  let ?bind = "if args = [] then Inr kwargs
      else assign_args (inputs self) args [0..<length (inputs self)] kwargs"
  from True have refs: "ONNXModel_predict_refs f32 self args kwargs s =
     (case ?bind of
        Inl e \<Rightarrow> (Inl e, s)
      | Inr kwargs' \<Rightarrow>
          (case lens (deref s kwargs') of
             Inl e \<Rightarrow> (Inl e, s)
           | Inr n_predictions \<Rightarrow>
               if length (remdups n_predictions) \<noteq> 1 then (Inl BatchSizeMismatchError, s)
               else
                 (case narrow_refs f32 kwargs' s of
                    (kwargs'', s') \<Rightarrow>
                      ((case run (sess self) (deref s' kwargs'') of
                          Inl msg \<Rightarrow> Inl (BackendError msg)
                        | Inr outs \<Rightarrow> Inr outs), s'))))"
    by (intro predict_refs_passed) auto
  from True have "''self'' \<notin> set (map fst (deref s kwargs))"
    by simp
  moreover from True have "(map (heap s) args = []) \<noteq> (deref s kwargs = [])"
    and "length (deref s kwargs) = length (inputs self)
       \<or> length (map (heap s) args) = length (inputs self)"
    by (auto simp: deref_def)
  ultimately have vals: "ONNXModel_predict f32 self (map (heap s) args) (deref s kwargs) =
     (case (if map (heap s) args = [] then Inr (deref s kwargs)
            else assign_args (inputs self) (map (heap s) args) [0..<length (inputs self)]
                   (deref s kwargs)) of
        Inl e \<Rightarrow> Inl e
      | Inr kwargs' \<Rightarrow>
          (case lens kwargs' of
             Inl e \<Rightarrow> Inl e
           | Inr n_predictions \<Rightarrow>
               if length (remdups n_predictions) \<noteq> 1 then Inl BatchSizeMismatchError
               else
                 (case run (sess self) (narrow_all f32 kwargs') of
                    Inl msg \<Rightarrow> Inl (BackendError msg)
                  | Inr outs \<Rightarrow> Inr outs)))"
    by (rule predict_passed)
  show ?thesis
  proof (cases ?bind)
    case (Inl e)
    then have "args \<noteq> []" by (auto split: if_splits)
    with Inl have "assign_args (inputs self) (map (heap s) args) [0..<length (inputs self)]
        (deref s kwargs) = Inl e"
      unfolding deref_def by (simp add: assign_args_map)
    with Inl \<open>args \<noteq> []\<close> show ?thesis
      unfolding refs vals by simp
  next
    case (Inr kws)
    have bindv: "(if map (heap s) args = [] then Inr (deref s kwargs)
        else assign_args (inputs self) (map (heap s) args) [0..<length (inputs self)]
          (deref s kwargs)) = Inr (deref s kws)"
    proof (cases "args = []")
      case True
      with Inr show ?thesis by simp
    next
      case False
      with Inr show ?thesis
        unfolding deref_def by (simp add: assign_args_map)
    qed
    have "snd ` set kws \<subseteq> set args \<union> snd ` set kwargs"
    proof (cases "args = []")
      case True
      with Inr show ?thesis by auto
    next
      case False
      with Inr show ?thesis
        by (simp add: assign_args_refs)
    qed
    with valid have "\<forall>a \<in> snd ` set kws. a < used s" by blast
    moreover obtain kws' s' where nr: "narrow_refs f32 kws s = (kws', s')"
      by (cases "narrow_refs f32 kws s")
    ultimately have narrowed: "deref s' kws' = narrow_all f32 (deref s kws)"
      by (intro narrow_refs_deref)
    show ?thesis
      unfolding refs vals Inr bindv
      by (simp add: nr narrowed split: sum.splits)
  qed
qed

text \<open>
  Claim C10. A call of \<^verbatim>\<open>predict\<close> on allocated arguments, whether it returns
  outputs or an error, leaves every object that was allocated before the call as it was,
  the supplied inputs among them (the narrowed arrays are new objects), and leaves the
  reconstructor with its registry of models as it was. Its result is that of the model of
  the call on values, and the same call made again after it has the same result.
\<close>

theorem predict_refs_leaves_state:
  assumes call: "ONNXModel_predict_refs f32 self args kwargs s = (result, s')"
    and valid: "\<forall>a \<in> set args \<union> snd ` set kwargs. a < used s"
  shows "(\<forall>a < used s. heap s' a = heap s a)
     \<and> reconstructor s' = reconstructor s
     \<and> result = ONNXModel_predict f32 self (map (heap s) args) (deref s kwargs)
     \<and> fst (ONNXModel_predict_refs f32 self args kwargs s') = result"
proof -
  note frame = predict_refs_frame [OF call]
  from predict_refs_result [OF valid, of f32 self] call
  have result: "result = ONNXModel_predict f32 self (map (heap s) args) (deref s kwargs)"
    by simp
  have valid': "\<forall>a \<in> set args \<union> snd ` set kwargs. a < used s'"
  proof
    fix a
    assume "a \<in> set args \<union> snd ` set kwargs"
    with valid have "a < used s" by blast
    with frame show "a < used s'" by simp
  qed
  from valid frame have args: "map (heap s') args = map (heap s) args"
    by simp
  from valid frame have kwargs: "deref s' kwargs = deref s kwargs"
    by (intro deref_cong) auto
  have "fst (ONNXModel_predict_refs f32 self args kwargs s') = result"
    unfolding result predict_refs_result [OF valid', of f32 self] args kwargs ..
  with frame result show ?thesis by simp
qed

text \<open>
  One \<^verbatim>\<open>float64\<close> array at address 0: the call returns its \<^verbatim>\<open>float32\<close> copy, and
  address 0 still holds the \<^verbatim>\<open>float64\<close> array.
\<close>

theorem predict_refs_leaves_state_witness:
  "fst (ONNXModel_predict_refs round32 (echo_model [''image'']) [0] []
          \<lparr>heap = (\<lambda>a. if a = 0 then NDArray Float64 [2, 8] 5 else PyObj None), used = 1,
           reconstructor = example_reconstructor\<rparr>)
     = Inr [NDArray Float32 [2, 8] 4]
   \<and> heap (snd (ONNXModel_predict_refs round32 (echo_model [''image'']) [0] []
          \<lparr>heap = (\<lambda>a. if a = 0 then NDArray Float64 [2, 8] 5 else PyObj None), used = 1,
           reconstructor = example_reconstructor\<rparr>)) 0
     = NDArray Float64 [2, 8] 5
   \<and> reconstructor (snd (ONNXModel_predict_refs round32 (echo_model [''image'']) [0] []
          \<lparr>heap = (\<lambda>a. if a = 0 then NDArray Float64 [2, 8] 5 else PyObj None), used = 1,
           reconstructor = example_reconstructor\<rparr>))
     = example_reconstructor"
proof -
  let ?s = "\<lparr>heap = (\<lambda>a. if a = 0 then NDArray Float64 [2, 8] 5 else PyObj None),
      used = 1, reconstructor = example_reconstructor\<rparr>"
  let ?call = "ONNXModel_predict_refs round32 (echo_model [''image'']) [0] [] ?s"
  have call: "?call = (fst ?call, snd ?call)" by simp
  have valid: "\<forall>a \<in> set [0] \<union> snd ` set ([] :: (string \<times> nat) list). a < used ?s"
    by simp
  from predict_refs_leaves_state [OF call valid] show ?thesis
    by (simp add: instance_defs)
qed

end
